theory Spec2Isabelle
  imports Main "HOL-Library.Word"
begin

unbundle bit_operations_syntax

section \<open>The MCP2515 SPI CAN controller driver (mcp2515.c)\<close>

text \<open>
  A shallow embedding of the driver: the frame/buffer codec, the synchronous
  bring-up and detection code, and the callback-driven state machine that
  chains asynchronous SPI transfers.  Bytes are \<open>8 word\<close>, CAN identifiers and
  the kernel's \<open>int\<close> results are \<open>32 word\<close>.
\<close>

type_synonym u8 = "8 word"
type_synonym u32 = "32 word"
type_synonym s32 = "32 word"

subsection \<open>Constants of the source file\<close>

definition MCP2515_INSTRUCTION_WRITE :: u8 where "MCP2515_INSTRUCTION_WRITE = 0x02"
definition MCP2515_INSTRUCTION_READ :: u8 where "MCP2515_INSTRUCTION_READ = 0x03"
definition MCP2515_INSTRUCTION_BIT_MODIFY :: u8 where "MCP2515_INSTRUCTION_BIT_MODIFY = 0x05"
definition MCP2515_INSTRUCTION_LOAD_TXB :: "nat \<Rightarrow> u8" where
  "MCP2515_INSTRUCTION_LOAD_TXB n = 0x40 + push_bit 1 (of_nat n)"
definition MCP2515_INSTRUCTION_RTS :: "nat \<Rightarrow> u8" where
  "MCP2515_INSTRUCTION_RTS n = 0x80 + push_bit n 1"
definition MCP2515_INSTRUCTION_READ_RXB :: "nat \<Rightarrow> u8" where
  "MCP2515_INSTRUCTION_READ_RXB n = 0x90 + push_bit 2 (of_nat n)"
definition MCP2515_INSTRUCTION_RESET :: u8 where "MCP2515_INSTRUCTION_RESET = 0xc0"

definition CANSTAT :: u8 where "CANSTAT = 0x0e"
definition CANCTRL :: u8 where "CANCTRL = 0x0f"
definition CANINTF :: u8 where "CANINTF = 0x2c"
definition EFLAG :: u8 where "EFLAG = 0x2d"
definition CNF3 :: u8 where "CNF3 = 0x28"
definition RXB0CTRL :: u8 where "RXB0CTRL = 0x60"

definition CANCTRL_REQOP_NORMAL :: u8 where "CANCTRL_REQOP_NORMAL = 0x00"
definition CANCTRL_REQOP_LOOPBACK :: u8 where "CANCTRL_REQOP_LOOPBACK = 0x40"
definition CANCTRL_REQOP_LISTEN_ONLY :: u8 where "CANCTRL_REQOP_LISTEN_ONLY = 0x60"
definition CANCTRL_REQOP_MASK :: u8 where "CANCTRL_REQOP_MASK = 0xe0"
definition CANCTRL_OSM :: u8 where "CANCTRL_OSM = 0x08"

definition CANINTF_RX0IF :: u8 where "CANINTF_RX0IF = 0x01"
definition CANINTF_RX1IF :: u8 where "CANINTF_RX1IF = 0x02"
definition CANINTF_TX0IF :: u8 where "CANINTF_TX0IF = 0x04"

definition EFLG_RX0OVR :: u8 where "EFLG_RX0OVR = 0x40"
definition EFLG_RX1OVR :: u8 where "EFLG_RX1OVR = 0x80"

definition CNF2_BTLMODE :: u32 where "CNF2_BTLMODE = 0x80"
definition CNF2_SAM :: u32 where "CNF2_SAM = 0x40"

definition CANINTE_RX :: u8 where "CANINTE_RX = 0x01 OR 0x02"
definition CANINTE_TX :: u8 where "CANINTE_TX = 0x04 OR 0x08 OR 0x10"
definition CANINTE_ERR :: u8 where "CANINTE_ERR = 0x20"

definition RXBCTRL_BUKT :: u8 where "RXBCTRL_BUKT = 0x04"
definition RXBCTRL_RXM0 :: u8 where "RXBCTRL_RXM0 = 0x20"
definition RXBCTRL_RXM1 :: u8 where "RXBCTRL_RXM1 = 0x40"

definition RXBSIDL_IDE :: u8 where "RXBSIDL_IDE = 0x08"
definition RXBSIDL_SRR :: u8 where "RXBSIDL_SRR = 0x10"
definition RXBDLC_RTR :: u8 where "RXBDLC_RTR = 0x40"

subsection \<open>Constants of the kernel headers the file includes\<close>

text \<open>
  \<open>linux/can.h\<close>, \<open>linux/can/netlink.h\<close> and \<open>errno.h\<close> are not part of the
  repository; the values below are the ones those headers define.
\<close>

definition CAN_EFF_FLAG :: u32 where "CAN_EFF_FLAG = 0x80000000"
definition CAN_RTR_FLAG :: u32 where "CAN_RTR_FLAG = 0x40000000"

definition CAN_CTRLMODE_LOOPBACK :: u32 where "CAN_CTRLMODE_LOOPBACK = 0x01"
definition CAN_CTRLMODE_LISTENONLY :: u32 where "CAN_CTRLMODE_LISTENONLY = 0x02"
definition CAN_CTRLMODE_3_SAMPLES :: u32 where "CAN_CTRLMODE_3_SAMPLES = 0x04"
definition CAN_CTRLMODE_ONE_SHOT :: u32 where "CAN_CTRLMODE_ONE_SHOT = 0x08"

definition ENODEV :: s32 where "ENODEV = 19"
definition EBUSY :: s32 where "EBUSY = 16"

text \<open>
  Modelled from the spec: the kernel macro \<open>get_can_dlc\<close> (\<open>linux/can/dev.h\<close>) is
  not in the repository.  Section 4.1 of the specification says the data
  length is the low four bits of the DLC byte "(0..8, clamped)".
\<close>

definition get_can_dlc :: "u8 \<Rightarrow> u8" where
  "get_can_dlc i = (if unat i \<le> 8 then i else 8)"

subsection \<open>CAN frames and byte buffers\<close>

text \<open>
  \<open>struct can_frame\<close>: the identifier with its EFF/RTR flag bits, the data
  length code and the eight data bytes.  An \<open>sk_buff\<close> handed to the driver
  carries exactly one such frame in \<open>skb->data\<close>, so the socket buffer is
  identified with its frame; a pointer that may be \<open>NULL\<close> is an \<open>option\<close>.
\<close>

record can_frame =
  can_id :: u32
  can_dlc :: u8
  data :: "u8 list"

type_synonym sk_buff = can_frame

datatype error = Null_Pointer | Buffer_Overrun | No_Callback

text \<open>
  \<open>memcpy (dst + off, src, n)\<close>.  The C call has no bounds check; reading past
  the source or writing past the destination is undefined behaviour, which
  the model reports as \<open>Buffer_Overrun\<close>.
\<close>

definition memcpy :: "u8 list \<Rightarrow> nat \<Rightarrow> u8 list \<Rightarrow> nat \<Rightarrow> error + u8 list" where
  "memcpy dst off src n =
     (if n \<le> length src \<and> off + n \<le> length dst
      then Inr (take off dst @ take n src @ drop (off + n) dst)
      else Inl Buffer_Overrun)"

text \<open>\<open>memset (buf, c, n)\<close> with a constant \<open>n\<close> that is the size of the buffer.\<close>

definition memset :: "u8 list \<Rightarrow> u8 \<Rightarrow> nat \<Rightarrow> u8 list" where
  "memset buf c n = replicate (min n (length buf)) c @ drop n buf"

subsection \<open>Frame to buffer: \<open>mcp2515_set_txbuf\<close>\<close>

text \<open>
  \<open>buf\<close> is the region starting at TXB0SIDH, that is the shared transmit
  buffer without its first byte.  \<open>set_txbuf_header\<close> is the part of the
  function before the \<open>memcpy\<close>: the four identifier bytes and the DLC byte.
  The result of \<open>mcp2515_set_txbuf\<close> is the buffer as written and the
  returned length \<open>5 + can_dlc\<close>.
\<close>

definition set_txbuf_header :: "u8 list \<Rightarrow> can_frame \<Rightarrow> u8 list" where
  "set_txbuf_header buf frame =
     (let id = can_id frame;
          buf1 = (if (id AND CAN_EFF_FLAG) \<noteq> 0
                  then buf[0 := ucast (drop_bit 21 id),
                           1 := ucast ((drop_bit 13 id AND 0xe0) OR 8 OR (drop_bit 16 id AND 3)),
                           2 := ucast (drop_bit 8 id),
                           3 := ucast id]
                  else buf[0 := ucast (drop_bit 3 id),
                           1 := ucast (push_bit 5 id),
                           2 := 0,
                           3 := 0]);
          buf2 = buf1[4 := can_dlc frame]
      in if (id AND CAN_RTR_FLAG) \<noteq> 0 then buf2[4 := (buf2 ! 4) OR 0x40] else buf2)"

definition mcp2515_set_txbuf :: "u8 list \<Rightarrow> can_frame \<Rightarrow> error + (u8 list \<times> nat)" where
  "mcp2515_set_txbuf buf frame =
     (case memcpy (set_txbuf_header buf frame) 5 (data frame) (unat (can_dlc frame)) of
        Inl e \<Rightarrow> Inl e
      | Inr buf1 \<Rightarrow> Inr (buf1, 5 + unat (can_dlc frame)))"

subsection \<open>Buffer to frame: the decoding part of \<open>mcp2515_read_rxb_complete\<close>\<close>

text \<open>
  The statements of \<open>mcp2515_read_rxb_complete\<close> between the allocation of the
  frame and the statistics: \<open>buf\<close> is the receive buffer of the READ-RXB
  transfer (byte 0 is clocked in while the instruction goes out), \<open>frame\<close> is
  the frame as \<open>alloc_can_skb\<close> returned it.
\<close>

definition mcp2515_rx_frame :: "u8 list \<Rightarrow> can_frame \<Rightarrow> error + can_frame" where
  "mcp2515_rx_frame buf frame =
     (let b = (\<lambda>i. (ucast (buf ! i) :: u32));
          id = (if ((buf ! 2) AND RXBSIDL_IDE) \<noteq> 0
                then (let id = push_bit 21 (b 1) OR push_bit 13 (b 2 AND 0xe0) OR
                               push_bit 16 (b 2 AND 3) OR push_bit 8 (b 3) OR b 4 OR
                               CAN_EFF_FLAG
                      in if ((buf ! 5) AND RXBDLC_RTR) \<noteq> 0 then id OR CAN_RTR_FLAG else id)
                else (let id = push_bit 3 (b 1) OR drop_bit 5 (b 2)
                      in if ((buf ! 2) AND RXBSIDL_SRR) \<noteq> 0 then id OR CAN_RTR_FLAG else id));
          dlc = get_can_dlc ((buf ! 5) AND 0xf);
          frame1 = frame\<lparr>can_id := id, can_dlc := dlc\<rparr>
      in if (id AND CAN_RTR_FLAG) = 0
         then (case memcpy (data frame1) 0 (drop 6 buf) (unat dlc) of
                 Inl e \<Rightarrow> Inl e
               | Inr d \<Rightarrow> Inr (frame1\<lparr>data := d\<rparr>))
         else Inr frame1)"

text \<open>The frame \<open>alloc_can_skb\<close> hands out: the kernel clears it.\<close>

definition zeroed_can_frame :: can_frame where
  "zeroed_can_frame = \<lparr>can_id = 0, can_dlc = 0, data = replicate 8 0\<rparr>"

subsection \<open>The device state\<close>

text \<open>
  The completion callbacks that \<open>message.complete\<close> can point to.
\<close>

datatype callback =
    Cb_read_flags_complete
  | Cb_read_rxb0_complete
  | Cb_read_rxb1_complete
  | Cb_clear_canintf_complete
  | Cb_clear_eflg_complete
  | Cb_load_txb0_complete
  | Cb_rts_txb0_complete

datatype can_state = CAN_STATE_ERROR_ACTIVE | CAN_STATE_STOPPED

record can_bittiming =
  prop_seg :: u32
  phase_seg1 :: u32
  phase_seg2 :: u32
  sjw :: u32
  brp :: u32

text \<open>
  One record for the \<open>net_device\<close>, its \<open>mcp2515_priv\<close> and the parts of the
  surrounding kernel that the driver reads or changes.  The one-bit fields
  \<open>busy\<close>, \<open>interrupt\<close> and \<open>transmit\<close> are booleans.  \<open>rx_buf\<close> and \<open>tx_buf\<close> are
  the 14-byte regions \<open>transfer.rx_buf\<close> and \<open>transfer.tx_buf\<close> point to.
  The statistics counters are \<open>unsigned long\<close>, taken as 64 bits wide.
  The last three fields record what the driver hands to its collaborators:
  the synchronous SPI writes, the messages given to \<open>spi_async\<close> (callback
  and the \<open>transfer.len\<close> bytes to send) and the frames passed to
  \<open>netif_rx_ni\<close>.
\<close>

record net_device =
  ctrlmode :: u32
  bittiming :: can_bittiming
  state :: can_state
  echo_skb :: "sk_buff option"
  canintf :: u8
  eflg :: u8
  skb :: "sk_buff option"
  busy :: bool
  interrupt :: bool
  transmit :: bool
  message_complete :: "callback option"
  transfer_len :: nat
  rx_buf :: "u8 list"
  tx_buf :: "u8 list"
  rx_dropped :: "64 word"
  rx_packets :: "64 word"
  rx_bytes :: "64 word"
  rx_over_errors :: "64 word"
  tx_packets :: "64 word"
  tx_bytes :: "64 word"
  queue_stopped :: bool
  registered :: bool
  spi_sync_log :: "u8 list list"
  spi_async_log :: "(callback option \<times> u8 list) list"
  netif_rx :: "can_frame list"

text \<open>
  Modelled from the spec: the echo queue of the CAN framework (section 6:
  \<open>put_echo(skb, idx)\<close> and \<open>get_echo(dev, idx) \<rightarrow> byte_count\<close>) is not in the
  repository.  Slot 0 keeps the frame put there; getting it returns the
  number of data bytes of that frame and empties the slot.
\<close>

definition can_put_echo_skb :: "sk_buff \<Rightarrow> net_device \<Rightarrow> net_device" where
  "can_put_echo_skb f dev =
     (case echo_skb dev of None \<Rightarrow> dev\<lparr>echo_skb := Some f\<rparr> | Some _ \<Rightarrow> dev)"

definition can_get_echo_skb :: "net_device \<Rightarrow> nat \<times> net_device" where
  "can_get_echo_skb dev =
     (case echo_skb dev of
        None \<Rightarrow> (0, dev)
      | Some f \<Rightarrow> (unat (can_dlc f), dev\<lparr>echo_skb := None\<rparr>))"

subsection \<open>Synchronous SPI access\<close>

text \<open>
  \<open>spi_write\<close> and \<open>spi_write_then_read\<close> belong to the SPI core.  The model
  records the bytes sent; the result code, and for a read the byte that
  came back, are inputs of the functions that call them.
\<close>

definition spi_write :: "u8 list \<Rightarrow> net_device \<Rightarrow> net_device" where
  "spi_write buf dev = dev\<lparr>spi_sync_log := spi_sync_log dev @ [buf]\<rparr>"

definition mcp2515_write_reg :: "u8 \<Rightarrow> u8 \<Rightarrow> net_device \<Rightarrow> net_device" where
  "mcp2515_write_reg reg val dev = spi_write [MCP2515_INSTRUCTION_WRITE, reg, val] dev"

definition mcp2515_read_reg :: "u8 \<Rightarrow> net_device \<Rightarrow> net_device" where
  "mcp2515_read_reg reg dev = spi_write [MCP2515_INSTRUCTION_READ, reg] dev"

definition mcp2515_hw_reset :: "net_device \<Rightarrow> net_device" where
  "mcp2515_hw_reset dev = spi_write [MCP2515_INSTRUCTION_RESET] dev"

subsection \<open>Bring-up: \<open>mcp2515_chip_start\<close>\<close>

text \<open>
  The loop that waits for the requested mode.  Each round reads CANSTAT; the
  list holds, for every round, the result code of the read, the byte read
  and whether \<open>time_after (jiffies, timeout)\<close> holds after \<open>schedule ()\<close>.
  \<open>None\<close> means the list of observations ended before the loop did.
\<close>

fun mcp2515_wait_mode :: "u8 \<Rightarrow> (s32 \<times> u8 \<times> bool) list \<Rightarrow> net_device \<Rightarrow> s32 option \<times> net_device" where
  "mcp2515_wait_mode mode [] dev = (None, dev)"
| "mcp2515_wait_mode mode ((err, reg_stat, expired) # rest) dev =
     (let dev1 = mcp2515_read_reg CANSTAT dev
      in if err \<noteq> 0 then (Some err, dev1)
         else if (reg_stat AND CANCTRL_REQOP_MASK) = mode
              then (Some 0, dev1\<lparr>state := CAN_STATE_ERROR_ACTIVE\<rparr>)
         else if expired then (Some (- EBUSY), dev1)
         else mcp2515_wait_mode mode rest dev1)"

text \<open>
  The mode byte computed under "handle can.ctrlmode".  The one-shot test is
  made on \<open>mode\<close>, as in the source.
\<close>

definition chip_start_mode :: "u32 \<Rightarrow> u8" where
  "chip_start_mode cm =
     (let mode = (if (cm AND CAN_CTRLMODE_LOOPBACK) \<noteq> 0 then CANCTRL_REQOP_LOOPBACK
                  else if (cm AND CAN_CTRLMODE_LISTENONLY) \<noteq> 0 then CANCTRL_REQOP_LISTEN_ONLY
                  else CANCTRL_REQOP_NORMAL)
      in if ((ucast mode :: u32) AND CAN_CTRLMODE_ONE_SHOT) \<noteq> 0 then mode OR CANCTRL_OSM
         else mode)"

text \<open>
  \<open>err_reset\<close>, \<open>err_cnf\<close> and \<open>err_rxb\<close> are the results of the reset and of the
  two multi-byte writes; the result of writing CANCTRL is ignored by the
  source.  The transceiver switch is an empty function in this file.
\<close>

definition mcp2515_chip_start ::
  "s32 \<Rightarrow> s32 \<Rightarrow> s32 \<Rightarrow> (s32 \<times> u8 \<times> bool) list \<Rightarrow> net_device \<Rightarrow> s32 option \<times> net_device" where
  "mcp2515_chip_start err_reset err_cnf err_rxb polls dev =
     (let dev1 = mcp2515_hw_reset dev
      in if err_reset \<noteq> 0 then (Some err_reset, dev1)
         else
           let bt = bittiming dev1;
               buf1 = (tx_buf dev1)
                 [0 := MCP2515_INSTRUCTION_WRITE,
                  1 := CNF3,
                  2 := ucast (phase_seg2 bt - 1),
                  3 := ucast (CNF2_BTLMODE OR
                              (if (ctrlmode dev1 AND CAN_CTRLMODE_3_SAMPLES) \<noteq> 0
                               then CNF2_SAM else 0) OR
                              push_bit 3 (phase_seg1 bt - 1) OR (prop_seg bt - 1)),
                  4 := ucast (push_bit 6 (sjw bt - 1) OR (brp bt - 1)),
                  5 := CANINTE_RX OR CANINTE_TX OR CANINTE_ERR];
               dev2 = spi_write (take 6 buf1) (dev1\<lparr>tx_buf := buf1\<rparr>)
           in if err_cnf \<noteq> 0 then (Some err_cnf, dev2)
              else
                let buf2 = buf1
                      [1 := RXB0CTRL,
                       2 := RXBCTRL_RXM1 OR RXBCTRL_RXM0 OR RXBCTRL_BUKT,
                       3 := RXBCTRL_RXM1 OR RXBCTRL_RXM0];
                    dev3 = spi_write (take 4 buf2) (dev2\<lparr>tx_buf := buf2\<rparr>)
                in if err_rxb \<noteq> 0 then (Some err_rxb, dev3)
                   else
                     let mode = chip_start_mode (ctrlmode dev3);
                         dev4 = mcp2515_write_reg CANCTRL mode dev3
                     in mcp2515_wait_mode mode polls dev4)"

subsection \<open>Detection: \<open>mcp2515_register_candev\<close>\<close>

text \<open>
  \<open>err_stat\<close>, \<open>reg_stat\<close> and \<open>err_ctrl\<close>, \<open>reg_ctrl\<close> are the result code and the
  byte of the two register reads (after a failed read the byte is whatever
  the variable holds); \<open>err_register\<close> is what the framework's
  \<open>register_candev\<close> returns if it is called.  The board setup and the power
  switch are empty functions in this file.
\<close>

definition mcp2515_register_candev ::
  "s32 \<Rightarrow> u8 \<Rightarrow> s32 \<Rightarrow> u8 \<Rightarrow> s32 \<Rightarrow> net_device \<Rightarrow> s32 \<times> net_device" where
  "mcp2515_register_candev err_stat reg_stat err_ctrl reg_ctrl err_register dev =
     (let dev1 = mcp2515_hw_reset dev;
          dev2 = mcp2515_read_reg CANSTAT dev1;
          err1 = 0 OR err_stat;
          dev3 = mcp2515_read_reg CANCTRL dev2;
          err2 = err1 OR err_ctrl
      in if \<not> ((reg_stat AND 0xee) = 0x80 \<and> (reg_ctrl AND 0x17) = 0x07) \<or> err2 \<noteq> 0
         then (- ENODEV, dev3)
         else if err_register \<noteq> 0 then (err_register, dev3)
         else (0, dev3\<lparr>registered := True\<rparr>))"

subsection \<open>Issuing asynchronous SPI transfers\<close>

text \<open>
  \<open>mcp2515_spi_async\<close> hands the one reusable message to \<open>spi_async\<close>.  When the
  SPI core refuses it the source only prints a line, so the driver state is
  the same in both branches; the model records the submission.
\<close>

definition mcp2515_spi_async :: "net_device \<Rightarrow> net_device" where
  "mcp2515_spi_async dev =
     dev\<lparr>spi_async_log :=
           spi_async_log dev @ [(message_complete dev, take (transfer_len dev) (tx_buf dev))]\<rparr>"

definition mcp2515_read_flags :: "net_device \<Rightarrow> net_device" where
  "mcp2515_read_flags dev =
     mcp2515_spi_async
       (dev\<lparr>tx_buf := (tx_buf dev)[0 := MCP2515_INSTRUCTION_READ, 1 := CANINTF, 2 := 0, 3 := 0],
            transfer_len := 4,
            message_complete := Some Cb_read_flags_complete\<rparr>)"

definition mcp2515_read_rxb :: "u8 \<Rightarrow> callback \<Rightarrow> net_device \<Rightarrow> net_device" where
  "mcp2515_read_rxb instruction complete dev =
     mcp2515_spi_async
       (dev\<lparr>tx_buf := (memset (tx_buf dev) 0 14)[0 := instruction],
            transfer_len := 14,
            message_complete := Some complete\<rparr>)"

definition mcp2515_read_rxb0 :: "net_device \<Rightarrow> net_device" where
  "mcp2515_read_rxb0 dev =
     mcp2515_read_rxb (MCP2515_INSTRUCTION_READ_RXB 0) Cb_read_rxb0_complete dev"

definition mcp2515_read_rxb1 :: "net_device \<Rightarrow> net_device" where
  "mcp2515_read_rxb1 dev =
     mcp2515_read_rxb (MCP2515_INSTRUCTION_READ_RXB 1) Cb_read_rxb1_complete dev"

definition mcp2515_clear_canintf :: "net_device \<Rightarrow> net_device" where
  "mcp2515_clear_canintf dev =
     mcp2515_spi_async
       (dev\<lparr>tx_buf := (tx_buf dev)
                [0 := MCP2515_INSTRUCTION_BIT_MODIFY,
                 1 := CANINTF,
                 2 := canintf dev AND NOT (CANINTF_RX0IF OR CANINTF_RX1IF),
                 3 := 0],
            transfer_len := 4,
            message_complete := Some Cb_clear_canintf_complete\<rparr>)"

definition mcp2515_clear_eflg :: "net_device \<Rightarrow> net_device" where
  "mcp2515_clear_eflg dev =
     mcp2515_spi_async
       (dev\<lparr>tx_buf := (tx_buf dev)
                [0 := MCP2515_INSTRUCTION_BIT_MODIFY,
                 1 := EFLAG,
                 2 := eflg dev,
                 3 := 0],
            transfer_len := 4,
            message_complete := Some Cb_clear_eflg_complete\<rparr>)"

text \<open>
  \<open>mcp2515_load_txb0\<close> dereferences \<open>skb\<close>; the callers pass \<open>priv->skb\<close>, which
  may be \<open>NULL\<close>.  \<open>mcp2515_set_txbuf\<close> is given \<open>buf + 1\<close>.
\<close>

definition mcp2515_load_txb0 :: "sk_buff option \<Rightarrow> net_device \<Rightarrow> error + net_device" where
  "mcp2515_load_txb0 skb_arg dev =
     (case skb_arg of
        None \<Rightarrow> Inl Null_Pointer
      | Some f \<Rightarrow>
          (let buf = (tx_buf dev)[0 := MCP2515_INSTRUCTION_LOAD_TXB 0]
           in case mcp2515_set_txbuf (drop 1 buf) f of
                Inl e \<Rightarrow> Inl e
              | Inr (payload, n) \<Rightarrow>
                  Inr (mcp2515_spi_async
                         (can_put_echo_skb f
                            (dev\<lparr>tx_buf := take 1 buf @ payload,
                                 transfer_len := n + 1,
                                 message_complete := Some Cb_load_txb0_complete\<rparr>)))))"

definition mcp2515_rts_txb0 :: "net_device \<Rightarrow> net_device" where
  "mcp2515_rts_txb0 dev =
     mcp2515_spi_async
       (dev\<lparr>tx_buf := (tx_buf dev)[0 := MCP2515_INSTRUCTION_RTS 0],
            transfer_len := 1,
            message_complete := Some Cb_rts_txb0_complete\<rparr>)"

subsection \<open>Completion callbacks\<close>

text \<open>
  Each callback runs as one step.  The three flags are read and written
  only inside the critical section of the spinlock, and every function has
  at most one such section, so the steps of different contexts interleave
  as whole steps as far as the flags are concerned.
\<close>

definition mcp2515_read_flags_complete :: "net_device \<Rightarrow> error + net_device" where
  "mcp2515_read_flags_complete dev =
     (let c = rx_buf dev ! 2;
          dev1 = dev\<lparr>canintf := c, eflg := rx_buf dev ! 3\<rparr>
      in if (c AND CANINTF_RX0IF) \<noteq> 0 then Inr (mcp2515_read_rxb0 dev1)
         else if (c AND CANINTF_RX1IF) \<noteq> 0 then Inr (mcp2515_read_rxb1 dev1)
         else if c \<noteq> 0 then Inr (mcp2515_clear_canintf dev1)
         else if transmit dev1 then mcp2515_load_txb0 (skb dev1) (dev1\<lparr>transmit := False\<rparr>)
         else if interrupt dev1 then Inr (mcp2515_read_flags (dev1\<lparr>interrupt := False\<rparr>))
         else Inr (dev1\<lparr>busy := False\<rparr>))"

text \<open>
  \<open>alloc\<close> is what \<open>alloc_can_skb\<close> returns: \<open>None\<close> when the allocation fails,
  otherwise the new frame.
\<close>

definition mcp2515_read_rxb_complete :: "can_frame option \<Rightarrow> net_device \<Rightarrow> error + net_device" where
  "mcp2515_read_rxb_complete alloc dev =
     (case alloc of
        None \<Rightarrow> Inr (dev\<lparr>rx_dropped := rx_dropped dev + 1\<rparr>)
      | Some frame \<Rightarrow>
          (case mcp2515_rx_frame (rx_buf dev) frame of
             Inl e \<Rightarrow> Inl e
           | Inr f \<Rightarrow>
               Inr (dev\<lparr>rx_packets := rx_packets dev + 1,
                        rx_bytes := rx_bytes dev + ucast (can_dlc f),
                        netif_rx := netif_rx dev @ [f]\<rparr>)))"

definition mcp2515_transmit_or_read_flags :: "net_device \<Rightarrow> error + net_device" where
  "mcp2515_transmit_or_read_flags dev =
     (if transmit dev then mcp2515_load_txb0 (skb dev) (dev\<lparr>transmit := False\<rparr>)
      else Inr (mcp2515_read_flags dev))"

definition mcp2515_read_rxb0_complete :: "can_frame option \<Rightarrow> net_device \<Rightarrow> error + net_device" where
  "mcp2515_read_rxb0_complete alloc dev =
     (case mcp2515_read_rxb_complete alloc dev of
        Inl e \<Rightarrow> Inl e
      | Inr dev1 \<Rightarrow>
          if (canintf dev1 AND CANINTF_RX1IF) \<noteq> 0 then Inr (mcp2515_read_rxb1 dev1)
          else mcp2515_transmit_or_read_flags dev1)"

definition mcp2515_read_rxb1_complete :: "can_frame option \<Rightarrow> net_device \<Rightarrow> error + net_device" where
  "mcp2515_read_rxb1_complete alloc dev =
     (case mcp2515_read_rxb_complete alloc dev of
        Inl e \<Rightarrow> Inl e
      | Inr dev1 \<Rightarrow> mcp2515_transmit_or_read_flags dev1)"

definition netif_wake_queue :: "net_device \<Rightarrow> net_device" where
  "netif_wake_queue dev = dev\<lparr>queue_stopped := False\<rparr>"

definition netif_stop_queue :: "net_device \<Rightarrow> net_device" where
  "netif_stop_queue dev = dev\<lparr>queue_stopped := True\<rparr>"

definition mcp2515_clear_canintf_complete :: "net_device \<Rightarrow> net_device" where
  "mcp2515_clear_canintf_complete dev =
     (let dev1 =
        (if (canintf dev AND CANINTF_TX0IF) \<noteq> 0
         then let dev2 = (case skb dev of
                            None \<Rightarrow> dev
                          | Some _ \<Rightarrow>
                              (case can_get_echo_skb dev of
                                 (n, d) \<Rightarrow> d\<lparr>tx_bytes := tx_bytes d + of_nat n,
                                              tx_packets := tx_packets d + 1\<rparr>))
              in netif_wake_queue (dev2\<lparr>skb := None\<rparr>)
         else dev)
      in if eflg dev1 \<noteq> 0 then mcp2515_clear_eflg dev1 else mcp2515_read_flags dev1)"

definition mcp2515_clear_eflg_complete :: "net_device \<Rightarrow> net_device" where
  "mcp2515_clear_eflg_complete dev =
     (let dev1 = (if (eflg dev AND (EFLG_RX0OVR OR EFLG_RX1OVR)) \<noteq> 0
                  then dev\<lparr>rx_over_errors := rx_over_errors dev + 1\<rparr> else dev)
      in mcp2515_read_flags dev1)"

definition mcp2515_load_txb0_complete :: "net_device \<Rightarrow> net_device" where
  "mcp2515_load_txb0_complete dev = mcp2515_rts_txb0 dev"

definition mcp2515_rts_txb0_complete :: "net_device \<Rightarrow> net_device" where
  "mcp2515_rts_txb0_complete dev = mcp2515_read_flags dev"

subsection \<open>Interrupt handler and transmit entry\<close>

text \<open>The handler always returns \<open>IRQ_HANDLED\<close>; the model returns the state.\<close>

definition mcp2515_interrupt :: "net_device \<Rightarrow> net_device" where
  "mcp2515_interrupt dev =
     (if busy dev then dev\<lparr>interrupt := True\<rparr>
      else mcp2515_read_flags (dev\<lparr>busy := True\<rparr>))"

text \<open>
  \<open>dropped\<close> is the result of the framework's \<open>can_dropped_invalid_skb\<close>.  The
  function always returns \<open>NETDEV_TX_OK\<close>.
\<close>

definition mcp2515_start_xmit :: "sk_buff \<Rightarrow> bool \<Rightarrow> net_device \<Rightarrow> error + net_device" where
  "mcp2515_start_xmit skb_arg dropped dev =
     (if dropped then Inr dev
      else
        let dev1 = (netif_stop_queue dev)\<lparr>skb := Some skb_arg\<rparr>
        in if busy dev1 then Inr (dev1\<lparr>transmit := True\<rparr>)
           else mcp2515_load_txb0 (Some skb_arg) (dev1\<lparr>busy := True\<rparr>))"

subsection \<open>The driver as a transition system\<close>

text \<open>
  What can happen to a device: the interrupt line fires, the host hands over
  a frame, or the SPI core completes the message in flight.  A completion
  carries the bytes the chip clocked back and, for the callbacks that
  allocate a frame, the result of the allocation.  The SPI core fills the
  first \<open>transfer.len\<close> bytes of the receive buffer and then calls
  \<open>message.complete\<close>.
\<close>

datatype event =
    Irq
  | Xmit sk_buff bool
  | Spi_complete "u8 list" "can_frame option"

definition spi_fill_rx :: "u8 list \<Rightarrow> net_device \<Rightarrow> net_device" where
  "spi_fill_rx rx dev =
     dev\<lparr>rx_buf := take (transfer_len dev) rx @
                    drop (min (transfer_len dev) (length rx)) (rx_buf dev)\<rparr>"

fun run_callback :: "callback \<Rightarrow> can_frame option \<Rightarrow> net_device \<Rightarrow> error + net_device" where
  "run_callback Cb_read_flags_complete alloc dev = mcp2515_read_flags_complete dev"
| "run_callback Cb_read_rxb0_complete alloc dev = mcp2515_read_rxb0_complete alloc dev"
| "run_callback Cb_read_rxb1_complete alloc dev = mcp2515_read_rxb1_complete alloc dev"
| "run_callback Cb_clear_canintf_complete alloc dev = Inr (mcp2515_clear_canintf_complete dev)"
| "run_callback Cb_clear_eflg_complete alloc dev = Inr (mcp2515_clear_eflg_complete dev)"
| "run_callback Cb_load_txb0_complete alloc dev = Inr (mcp2515_load_txb0_complete dev)"
| "run_callback Cb_rts_txb0_complete alloc dev = Inr (mcp2515_rts_txb0_complete dev)"

fun step :: "event \<Rightarrow> net_device \<Rightarrow> error + net_device" where
  "step Irq dev = Inr (mcp2515_interrupt dev)"
| "step (Xmit skb_arg dropped) dev = mcp2515_start_xmit skb_arg dropped dev"
| "step (Spi_complete rx alloc) dev =
     (case message_complete dev of
        None \<Rightarrow> Inl No_Callback
      | Some cb \<Rightarrow> run_callback cb alloc (spi_fill_rx rx dev))"

fun run :: "event list \<Rightarrow> net_device \<Rightarrow> error + net_device" where
  "run [] dev = Inr dev"
| "run (ev # evs) dev = (case step ev dev of Inl e \<Rightarrow> Inl e | Inr dev1 \<Rightarrow> run evs dev1)"

text \<open>
  The device as \<open>alloc_candev\<close> and \<open>mcp2515_probe\<close> leave it: cleared, with the
  two 14-byte buffers.
\<close>

definition probed_dev :: net_device where
  "probed_dev =
     \<lparr>ctrlmode = 0,
      bittiming = \<lparr>prop_seg = 0, phase_seg1 = 0, phase_seg2 = 0, sjw = 0, brp = 0\<rparr>,
      state = CAN_STATE_STOPPED,
      echo_skb = None,
      canintf = 0, eflg = 0, skb = None,
      busy = False, interrupt = False, transmit = False,
      message_complete = None, transfer_len = 0,
      rx_buf = replicate 14 0, tx_buf = replicate 14 0,
      rx_dropped = 0, rx_packets = 0, rx_bytes = 0, rx_over_errors = 0,
      tx_packets = 0, tx_bytes = 0,
      queue_stopped = False, registered = False,
      spi_sync_log = [], spi_async_log = [], netif_rx = []\<rparr>"

subsection \<open>Properties used in the statements\<close>

text \<open>Invariant I6: while \<open>busy\<close> is clear, \<open>transmit\<close> and \<open>interrupt\<close> are clear.\<close>

definition I6 :: "net_device \<Rightarrow> bool" where
  "I6 dev = (busy dev \<or> (\<not> transmit dev \<and> \<not> interrupt dev))"

text \<open>The message most recently handed to \<open>spi_async\<close>.\<close>

definition last_submitted :: "net_device \<Rightarrow> (callback option \<times> u8 list) option" where
  "last_submitted dev =
     (case rev (spi_async_log dev) of [] \<Rightarrow> None | m # _ \<Rightarrow> Some m)"

text \<open>
  The READ-RXB buffer marks a remote request: for an extended frame bit 6 of
  the DLC byte, for a standard frame the SRR bit of SIDL.
\<close>

definition rxb_rtr :: "u8 list \<Rightarrow> bool" where
  "rxb_rtr buf =
     (if ((buf ! 2) AND RXBSIDL_IDE) \<noteq> 0 then ((buf ! 5) AND RXBDLC_RTR) \<noteq> 0
      else ((buf ! 2) AND RXBSIDL_SRR) \<noteq> 0)"

text \<open>
  Events that move the pending frame: the host transmit entry accepts the
  frame (it is not dropped as invalid); the completion of CLEAR_CANINTF runs
  while the cached CANINTF has TX0IF.
\<close>

definition xmit_accept :: "event \<Rightarrow> bool" where
  "xmit_accept ev = (case ev of Xmit f dropped \<Rightarrow> \<not> dropped | _ \<Rightarrow> False)"

definition tx_done :: "event \<Rightarrow> net_device \<Rightarrow> bool" where
  "tx_done ev dev =
     (case ev of
        Spi_complete rx a \<Rightarrow>
          message_complete dev = Some Cb_clear_canintf_complete \<and>
          (canintf dev AND CANINTF_TX0IF) \<noteq> 0
      | _ \<Rightarrow> False)"

text \<open>A result that is not an error.\<close>

definition is_ok :: "error + 'a \<Rightarrow> bool" where
  "is_ok r = (case r of Inl _ \<Rightarrow> False | Inr _ \<Rightarrow> True)"

subsection \<open>Frames and states used as examples\<close>

definition std_frame :: can_frame where
  "std_frame = \<lparr>can_id = 0x123, can_dlc = 3, data = [0xAA, 0xBB, 0xCC, 0, 0, 0, 0, 0]\<rparr>"

definition ext_frame :: can_frame where
  "ext_frame = \<lparr>can_id = 0x1ABCDEF0 OR CAN_EFF_FLAG, can_dlc = 2,
                 data = [0x11, 0x22, 0, 0, 0, 0, 0, 0]\<rparr>"

definition rtr_frame :: can_frame where
  "rtr_frame = \<lparr>can_id = 0x123 OR CAN_RTR_FLAG, can_dlc = 3,
                 data = [0x01, 0x02, 0x03, 0, 0, 0, 0, 0]\<rparr>"

text \<open>
  A run that exercises all three flags: an interrupt starts READ_FLAGS, the
  host submits a frame and a second interrupt arrives while the device is
  busy; the chip then reports nothing pending, the frame is loaded and sent,
  TX0IF is reported and cleared, and two more flag reads drain the machine.
\<close>

definition tx_scenario :: "event list" where
  "tx_scenario =
     [Irq, Xmit std_frame False, Irq,
      Spi_complete [0, 0, 0, 0] None,
      Spi_complete [] None,
      Spi_complete [] None,
      Spi_complete [0, 0, 0x04, 0] None,
      Spi_complete [] None,
      Spi_complete [0, 0, 0, 0] None,
      Spi_complete [0, 0, 0, 0] None]"

text \<open>
  The device of \<open>tx_scenario\<close> at the moment the BIT-MODIFY that clears TX0IF is
  in flight: \<open>std_frame\<close> is still pending.
\<close>

definition tx_pending_dev :: net_device where
  "tx_pending_dev = projr (run (take 7 tx_scenario) probed_dev)"

text \<open>A device asked for one-shot mode, with a valid bit timing.\<close>

definition one_shot_dev :: net_device where
  "one_shot_dev =
     probed_dev\<lparr>ctrlmode := CAN_CTRLMODE_ONE_SHOT,
                bittiming := \<lparr>prop_seg = 2, phase_seg1 = 3, phase_seg2 = 2, sjw = 1, brp = 4\<rparr>\<rparr>"

text \<open>
  Receive buffers as READ-RXB leaves them: a standard remote request for
  identifier 0x123 (SRR set), and a standard data frame whose DLC byte has
  bit 6 set.
\<close>

definition rxb_std_rtr :: "u8 list" where
  "rxb_std_rtr = [0, 0x24, 0x70, 0, 0, 0x03, 9, 9, 9, 9, 9, 9, 9, 9]"

definition rxb_std_dlc_bit6 :: "u8 list" where
  "rxb_std_dlc_bit6 = [0, 0x24, 0x60, 0, 0, 0x41, 0xAA, 0, 0, 0, 0, 0, 0, 0]"

section \<open>Auxiliary facts\<close>

subsection \<open>Bits and bytes\<close>

lemma and_rtr_iff: "((x::u32) AND CAN_RTR_FLAG \<noteq> 0) = bit x 30"
proof -
  have e: "(0x40000000::u32) = 2 ^ 30" by simp
  show ?thesis unfolding CAN_RTR_FLAG_def e by (simp only: and_exp_eq_0_iff_not_bit) simp
qed

lemma and_rtr_iff0: "((x::u32) AND CAN_RTR_FLAG = 0) = (\<not> bit x 30)"
  using and_rtr_iff [of x] by blast

lemma and_eff_iff: "((x::u32) AND CAN_EFF_FLAG \<noteq> 0) = bit x 31"
proof -
  have e: "(0x80000000::u32) = 2 ^ 31" by simp
  show ?thesis unfolding CAN_EFF_FLAG_def e by (simp only: and_exp_eq_0_iff_not_bit) simp
qed

lemma and_x40_iff: "((x::u8) AND 0x40 \<noteq> 0) = bit x 6"
proof -
  have "(0x40::u8) = 2 ^ 6" by simp
  then show ?thesis by (simp only: and_exp_eq_0_iff_not_bit) simp
qed

lemma and_x10_iff: "((x::u8) AND 0x10 \<noteq> 0) = bit x 4"
proof -
  have "(0x10::u8) = 2 ^ 4" by simp
  then show ?thesis by (simp only: and_exp_eq_0_iff_not_bit) simp
qed

lemma rxb_rtr_bits:
  "rxb_rtr buf = (if ((buf ! 2) AND RXBSIDL_IDE) \<noteq> 0 then bit (buf ! 5) 6 else bit (buf ! 2) 4)"
  by (simp add: rxb_rtr_def RXBDLC_RTR_def RXBSIDL_SRR_def and_x40_iff and_x10_iff)

lemma rtr_nz: "CAN_RTR_FLAG \<noteq> 0"
  by (simp add: CAN_RTR_FLAG_def)

lemma bit_u8_high: "8 \<le> n \<Longrightarrow> \<not> bit (a::u8) n"
  using bit_imp_le_length [of a n] by auto

lemma rtr_bit_ext:
  "\<not> bit (push_bit 21 (ucast (a::u8)) OR push_bit 13 (ucast (b::u8) AND 0xe0) OR
          push_bit 16 (ucast b AND 3) OR push_bit 8 (ucast (c::u8)) OR ucast (d::u8) OR
          CAN_EFF_FLAG :: u32) 30"
  by (simp add: CAN_EFF_FLAG_def bit_simps bit_u8_high)

lemma rtr_bit_std: "\<not> bit (push_bit 3 (ucast (a::u8)) OR drop_bit 5 (ucast (b::u8)) :: u32) 30"
  by (simp add: bit_simps bit_u8_high)

lemma rtr_bit_or: "bit ((x::u32) OR CAN_RTR_FLAG) 30"
  by (simp add: CAN_RTR_FLAG_def bit_simps)

lemma dlc_cases:
  assumes "unat (d::u8) \<le> 8"
  shows "d = 0 \<or> d = 1 \<or> d = 2 \<or> d = 3 \<or> d = 4 \<or> d = 5 \<or> d = 6 \<or> d = 7 \<or> d = 8"
proof -
  from assms have "unat d = 0 \<or> unat d = 1 \<or> unat d = 2 \<or> unat d = 3 \<or> unat d = 4 \<or>
      unat d = 5 \<or> unat d = 6 \<or> unat d = 7 \<or> unat d = 8" by arith
  then show ?thesis by (simp add: word_unat_eq_iff)
qed

lemma dlc_low_bits:
  assumes "unat (d::u8) \<le> 8"
  shows "d AND 0xf = d" "(d OR 0x40) AND 0xf = d" "\<not> bit d 6" "bit (d OR 0x40) 6"
  using dlc_cases [OF assms] by (auto simp: bit_simps)

lemma take4_upd:
  "4 \<le> length xs \<Longrightarrow> take 4 (xs[0 := a, Suc 0 := b, 2 := c, 3 := d]) = [a, b, c, d]"
  by (auto simp: numeral_eq_Suc Suc_le_length_iff)

lemma take1_upd:
  "Suc 0 \<le> length xs \<Longrightarrow> take (Suc 0) (xs[0 := a]) = [a]"
  by (auto simp: Suc_le_length_iff)

subsection \<open>The codec\<close>

lemma header_length: "length (set_txbuf_header buf f) = length buf"
  by (simp add: set_txbuf_header_def Let_def)

lemma header_dlc:
  "4 < length buf \<Longrightarrow>
   set_txbuf_header buf f ! 4 =
     (if (can_id f AND CAN_RTR_FLAG) \<noteq> 0 then can_dlc f OR 0x40 else can_dlc f)"
  by (simp add: set_txbuf_header_def Let_def)

lemma set_txbuf_ok:
  assumes "unat (can_dlc f) \<le> 8" "length (data f) = 8" "length buf = 13"
  shows "mcp2515_set_txbuf buf f =
           Inr (take 5 (set_txbuf_header buf f) @ take (unat (can_dlc f)) (data f) @
                drop (5 + unat (can_dlc f)) (set_txbuf_header buf f), 5 + unat (can_dlc f))"
  using assms by (simp add: mcp2515_set_txbuf_def memcpy_def header_length)

lemma get_can_dlc_le: "unat (get_can_dlc i) \<le> 8"
  by (simp add: get_can_dlc_def)

lemma get_can_dlc_min: "unat (get_can_dlc i) = min (unat i) 8"
  by (simp add: get_can_dlc_def)

lemma rx_frame_rtr:
  assumes "rxb_rtr buf"
  shows "\<exists>f'. mcp2515_rx_frame buf frame = Inr f' \<and> data f' = data frame \<and>
               (can_id f' AND CAN_RTR_FLAG) \<noteq> 0"
  using assms
  by (auto simp: mcp2515_rx_frame_def rxb_rtr_def Let_def rtr_nz split: if_splits)

lemma rx_frame_ok:
  assumes "length buf = 14" "length (data frame) = 8"
  shows "\<exists>f'. mcp2515_rx_frame buf frame = Inr f' \<and>
     unat (can_dlc f') = min (unat ((buf ! 5) AND 0xf)) 8 \<and>
     ((can_id f' AND CAN_RTR_FLAG) \<noteq> 0) = rxb_rtr buf \<and>
     ((can_id f' AND CAN_EFF_FLAG) \<noteq> 0) = (((buf ! 2) AND RXBSIDL_IDE) \<noteq> 0)"
  using assms
  apply (simp add: mcp2515_rx_frame_def rxb_rtr_def Let_def rtr_nz and_rtr_iff0 and_rtr_iff
       rtr_bit_or rtr_bit_ext rtr_bit_std get_can_dlc_min memcpy_def get_can_dlc_le and_eff_iff)
  apply (simp add: bit_simps bit_u8_high CAN_EFF_FLAG_def CAN_RTR_FLAG_def)
  done

lemma std_roundtrip:
  assumes "length buf = 13"
  shows "\<exists>p. mcp2515_set_txbuf buf std_frame = Inr (p, 8) \<and>
             mcp2515_rx_frame (b0 # p) zeroed_can_frame = Inr std_frame"
proof -
  have 1: "unat (can_dlc std_frame) \<le> 8" "length (data std_frame) = 8"
    by (simp_all add: std_frame_def)
  show ?thesis
    using assms
    apply (simp add: set_txbuf_ok [OF 1 assms])
    apply (simp add: std_frame_def set_txbuf_header_def Let_def CAN_EFF_FLAG_def CAN_RTR_FLAG_def)
    apply (simp add: mcp2515_rx_frame_def Let_def nth_append zeroed_can_frame_def
        RXBSIDL_IDE_def RXBSIDL_SRR_def get_can_dlc_def memcpy_def CAN_RTR_FLAG_def)
    apply (simp add: numeral_eq_Suc)
    done
qed

lemma ext_roundtrip:
  assumes "length buf = 13"
  shows "\<exists>p. mcp2515_set_txbuf buf ext_frame = Inr (p, 7) \<and>
             mcp2515_rx_frame (b0 # p) zeroed_can_frame = Inr ext_frame"
proof -
  have 1: "unat (can_dlc ext_frame) \<le> 8" "length (data ext_frame) = 8"
    by (simp_all add: ext_frame_def)
  show ?thesis
    using assms
    apply (simp add: set_txbuf_ok [OF 1 assms])
    apply (simp add: ext_frame_def set_txbuf_header_def Let_def CAN_EFF_FLAG_def CAN_RTR_FLAG_def)
    apply (simp add: mcp2515_rx_frame_def Let_def nth_append zeroed_can_frame_def
        RXBSIDL_IDE_def RXBSIDL_SRR_def get_can_dlc_def memcpy_def CAN_RTR_FLAG_def
        RXBDLC_RTR_def CAN_EFF_FLAG_def)
    apply (simp add: numeral_eq_Suc)
    done
qed

subsection \<open>What issuing a transfer leaves alone\<close>

lemmas issue_defs = mcp2515_spi_async_def mcp2515_read_flags_def mcp2515_read_rxb_def
  mcp2515_read_rxb0_def mcp2515_read_rxb1_def mcp2515_clear_canintf_def mcp2515_clear_eflg_def
  mcp2515_rts_txb0_def

lemma read_flags_fields:
  "busy (mcp2515_read_flags d) = busy d"
  "interrupt (mcp2515_read_flags d) = interrupt d"
  "transmit (mcp2515_read_flags d) = transmit d"
  "skb (mcp2515_read_flags d) = skb d"
  "canintf (mcp2515_read_flags d) = canintf d"
  "queue_stopped (mcp2515_read_flags d) = queue_stopped d"
  "tx_packets (mcp2515_read_flags d) = tx_packets d"
  "tx_bytes (mcp2515_read_flags d) = tx_bytes d"
  "length (tx_buf (mcp2515_read_flags d)) = length (tx_buf d)"
  "transfer_len (mcp2515_read_flags d) = 4"
  by (simp_all add: issue_defs)

lemma read_rxb_fields:
  "busy (mcp2515_read_rxb i cb d) = busy d"
  "interrupt (mcp2515_read_rxb i cb d) = interrupt d"
  "transmit (mcp2515_read_rxb i cb d) = transmit d"
  "skb (mcp2515_read_rxb i cb d) = skb d"
  "canintf (mcp2515_read_rxb i cb d) = canintf d"
  "queue_stopped (mcp2515_read_rxb i cb d) = queue_stopped d"
  "tx_packets (mcp2515_read_rxb i cb d) = tx_packets d"
  "tx_bytes (mcp2515_read_rxb i cb d) = tx_bytes d"
  "length (tx_buf (mcp2515_read_rxb i cb d)) = length (tx_buf d)"
  "transfer_len (mcp2515_read_rxb i cb d) = 14"
  by (simp_all add: issue_defs memset_def)

lemma clear_canintf_fields:
  "busy (mcp2515_clear_canintf d) = busy d"
  "interrupt (mcp2515_clear_canintf d) = interrupt d"
  "transmit (mcp2515_clear_canintf d) = transmit d"
  "skb (mcp2515_clear_canintf d) = skb d"
  "canintf (mcp2515_clear_canintf d) = canintf d"
  "queue_stopped (mcp2515_clear_canintf d) = queue_stopped d"
  "tx_packets (mcp2515_clear_canintf d) = tx_packets d"
  "tx_bytes (mcp2515_clear_canintf d) = tx_bytes d"
  "length (tx_buf (mcp2515_clear_canintf d)) = length (tx_buf d)"
  "transfer_len (mcp2515_clear_canintf d) = 4"
  by (simp_all add: issue_defs)

lemma clear_eflg_fields:
  "busy (mcp2515_clear_eflg d) = busy d"
  "interrupt (mcp2515_clear_eflg d) = interrupt d"
  "transmit (mcp2515_clear_eflg d) = transmit d"
  "skb (mcp2515_clear_eflg d) = skb d"
  "canintf (mcp2515_clear_eflg d) = canintf d"
  "queue_stopped (mcp2515_clear_eflg d) = queue_stopped d"
  "tx_packets (mcp2515_clear_eflg d) = tx_packets d"
  "tx_bytes (mcp2515_clear_eflg d) = tx_bytes d"
  "length (tx_buf (mcp2515_clear_eflg d)) = length (tx_buf d)"
  "transfer_len (mcp2515_clear_eflg d) = 4"
  by (simp_all add: issue_defs)

lemma rts_txb0_fields:
  "busy (mcp2515_rts_txb0 d) = busy d"
  "interrupt (mcp2515_rts_txb0 d) = interrupt d"
  "transmit (mcp2515_rts_txb0 d) = transmit d"
  "skb (mcp2515_rts_txb0 d) = skb d"
  "canintf (mcp2515_rts_txb0 d) = canintf d"
  "queue_stopped (mcp2515_rts_txb0 d) = queue_stopped d"
  "tx_packets (mcp2515_rts_txb0 d) = tx_packets d"
  "tx_bytes (mcp2515_rts_txb0 d) = tx_bytes d"
  "length (tx_buf (mcp2515_rts_txb0 d)) = length (tx_buf d)"
  "transfer_len (mcp2515_rts_txb0 d) = 1"
  by (simp_all add: issue_defs)

lemmas issue_fields = read_flags_fields read_rxb_fields clear_canintf_fields clear_eflg_fields
  rts_txb0_fields

lemma load_txb0_fields:
  assumes "mcp2515_load_txb0 sk d = Inr d'"
  shows "busy d' = busy d" "interrupt d' = interrupt d" "transmit d' = transmit d"
    "skb d' = skb d" "canintf d' = canintf d" "queue_stopped d' = queue_stopped d"
    "tx_packets d' = tx_packets d" "tx_bytes d' = tx_bytes d"
    "message_complete d' = Some Cb_load_txb0_complete"
    "spi_async_log d' \<noteq> spi_async_log d"
  using assms
  by (auto simp: mcp2515_load_txb0_def Let_def mcp2515_spi_async_def can_put_echo_skb_def
      split: option.splits sum.splits prod.splits)

lemma load_txb0_ok:
  assumes "unat (can_dlc f) \<le> 8" "length (data f) = 8" "length (tx_buf d) = 14"
  shows "\<exists>d'. mcp2515_load_txb0 (Some f) d = Inr d' \<and>
              transfer_len d' = 1 + 5 + unat (can_dlc f) \<and> length (tx_buf d') = 14"
proof -
  have "length (drop 1 ((tx_buf d)[0 := MCP2515_INSTRUCTION_LOAD_TXB 0])) = 13"
    using assms by simp
  from set_txbuf_ok [OF assms(1,2) this] show ?thesis
    using assms
    by (simp add: mcp2515_load_txb0_def Let_def mcp2515_spi_async_def can_put_echo_skb_def
        header_length split: option.split)
qed

lemma read_rxb_complete_fields:
  assumes "mcp2515_read_rxb_complete a d = Inr d'"
  shows "busy d' = busy d" "interrupt d' = interrupt d" "transmit d' = transmit d"
    "skb d' = skb d" "canintf d' = canintf d" "queue_stopped d' = queue_stopped d"
    "tx_packets d' = tx_packets d" "tx_bytes d' = tx_bytes d"
  using assms
  by (auto simp: mcp2515_read_rxb_complete_def split: option.splits sum.splits)

lemma transmit_or_read_flags_fields:
  assumes "mcp2515_transmit_or_read_flags d = Inr d'"
  shows "busy d' = busy d" "interrupt d' = interrupt d" "transmit d' = False"
    "skb d' = skb d" "canintf d' = canintf d" "queue_stopped d' = queue_stopped d"
    "tx_packets d' = tx_packets d" "tx_bytes d' = tx_bytes d"
  using assms
  by (auto simp: mcp2515_transmit_or_read_flags_def issue_fields dest: load_txb0_fields
      split: if_splits)

lemma load_txb0_flags:
  assumes "mcp2515_load_txb0 sk d = Inr d'"
  shows "busy d' = busy d \<and> interrupt d' = interrupt d \<and> transmit d' = transmit d \<and>
         skb d' = skb d"
  using load_txb0_fields [OF assms] by simp

lemma read_rxb_complete_flags:
  assumes "mcp2515_read_rxb_complete a d = Inr d'"
  shows "busy d' = busy d \<and> interrupt d' = interrupt d \<and> transmit d' = transmit d \<and>
         skb d' = skb d \<and> canintf d' = canintf d"
  using read_rxb_complete_fields [OF assms] by simp

lemma transmit_or_read_flags_flags:
  assumes "mcp2515_transmit_or_read_flags d = Inr d'"
  shows "busy d' = busy d \<and> interrupt d' = interrupt d \<and> \<not> transmit d' \<and> skb d' = skb d"
  using transmit_or_read_flags_fields [OF assms] by simp

subsection \<open>The flags and the pending frame, callback by callback\<close>

lemma read_flags_complete_I6:
  assumes "mcp2515_read_flags_complete d = Inr d'" "I6 d"
  shows "I6 d'"
  using assms
  by (auto simp: mcp2515_read_flags_complete_def Let_def I6_def issue_fields
      mcp2515_read_rxb0_def mcp2515_read_rxb1_def
      dest!: load_txb0_flags split: if_splits)

lemma read_flags_complete_skb:
  assumes "mcp2515_read_flags_complete d = Inr d'"
  shows "skb d' = skb d"
  using assms
  by (auto simp: mcp2515_read_flags_complete_def Let_def issue_fields
      mcp2515_read_rxb0_def mcp2515_read_rxb1_def
      dest!: load_txb0_flags split: if_splits)

lemma read_rxb0_complete_I6:
  assumes "mcp2515_read_rxb0_complete a d = Inr d'" "I6 d"
  shows "I6 d'"
  using assms
  by (auto simp: mcp2515_read_rxb0_complete_def I6_def issue_fields mcp2515_read_rxb1_def
      dest!: read_rxb_complete_flags transmit_or_read_flags_flags
      split: sum.splits if_splits)

lemma read_rxb0_complete_skb:
  assumes "mcp2515_read_rxb0_complete a d = Inr d'"
  shows "skb d' = skb d"
  using assms
  by (auto simp: mcp2515_read_rxb0_complete_def issue_fields mcp2515_read_rxb1_def
      dest!: read_rxb_complete_flags transmit_or_read_flags_flags
      split: sum.splits if_splits)

lemma read_rxb1_complete_I6:
  assumes "mcp2515_read_rxb1_complete a d = Inr d'" "I6 d"
  shows "I6 d'"
  using assms
  by (auto simp: mcp2515_read_rxb1_complete_def I6_def
      dest!: read_rxb_complete_flags transmit_or_read_flags_flags
      split: sum.splits)

lemma read_rxb1_complete_skb:
  assumes "mcp2515_read_rxb1_complete a d = Inr d'"
  shows "skb d' = skb d"
  using assms
  by (auto simp: mcp2515_read_rxb1_complete_def
      dest!: read_rxb_complete_flags transmit_or_read_flags_flags
      split: sum.splits)

lemma clear_canintf_complete_flags:
  "busy (mcp2515_clear_canintf_complete d) = busy d"
  "interrupt (mcp2515_clear_canintf_complete d) = interrupt d"
  "transmit (mcp2515_clear_canintf_complete d) = transmit d"
  by (simp_all add: mcp2515_clear_canintf_complete_def Let_def issue_fields netif_wake_queue_def
      can_get_echo_skb_def split: option.splits prod.splits)

lemma clear_canintf_complete_skb:
  "skb (mcp2515_clear_canintf_complete d) =
     (if (canintf d AND CANINTF_TX0IF) \<noteq> 0 then None else skb d)"
  by (simp add: mcp2515_clear_canintf_complete_def Let_def issue_fields netif_wake_queue_def)

lemma clear_canintf_complete_tx_done:
  assumes "(canintf d AND CANINTF_TX0IF) \<noteq> 0" "skb d \<noteq> None"
  shows "\<not> queue_stopped (mcp2515_clear_canintf_complete d)"
    "tx_packets (mcp2515_clear_canintf_complete d) = tx_packets d + 1"
    "tx_bytes (mcp2515_clear_canintf_complete d) = tx_bytes d + of_nat (fst (can_get_echo_skb d))"
  using assms
  by (auto simp: mcp2515_clear_canintf_complete_def Let_def issue_fields netif_wake_queue_def
      can_get_echo_skb_def split: option.splits prod.splits)

lemma clear_eflg_complete_fields:
  "busy (mcp2515_clear_eflg_complete d) = busy d"
  "interrupt (mcp2515_clear_eflg_complete d) = interrupt d"
  "transmit (mcp2515_clear_eflg_complete d) = transmit d"
  "skb (mcp2515_clear_eflg_complete d) = skb d"
  by (simp_all add: mcp2515_clear_eflg_complete_def Let_def issue_fields)

lemma spi_fill_rx_fields:
  "busy (spi_fill_rx rx d) = busy d"
  "interrupt (spi_fill_rx rx d) = interrupt d"
  "transmit (spi_fill_rx rx d) = transmit d"
  "skb (spi_fill_rx rx d) = skb d"
  "canintf (spi_fill_rx rx d) = canintf d"
  "queue_stopped (spi_fill_rx rx d) = queue_stopped d"
  "tx_packets (spi_fill_rx rx d) = tx_packets d"
  "tx_bytes (spi_fill_rx rx d) = tx_bytes d"
  "echo_skb (spi_fill_rx rx d) = echo_skb d"
  by (simp_all add: spi_fill_rx_def)

lemma run_callback_I6:
  assumes "run_callback cb a d = Inr d'" "I6 d"
  shows "I6 d'"
proof (cases cb)
  case Cb_read_flags_complete
  with assms show ?thesis by (simp add: read_flags_complete_I6)
next
  case Cb_read_rxb0_complete
  with assms show ?thesis by (simp add: read_rxb0_complete_I6)
next
  case Cb_read_rxb1_complete
  with assms show ?thesis by (simp add: read_rxb1_complete_I6)
next
  case Cb_clear_canintf_complete
  with assms show ?thesis by (auto simp: I6_def clear_canintf_complete_flags)
next
  case Cb_clear_eflg_complete
  with assms show ?thesis by (auto simp: I6_def clear_eflg_complete_fields)
next
  case Cb_load_txb0_complete
  with assms show ?thesis by (auto simp: I6_def mcp2515_load_txb0_complete_def issue_fields)
next
  case Cb_rts_txb0_complete
  with assms show ?thesis by (auto simp: I6_def mcp2515_rts_txb0_complete_def issue_fields)
qed

lemma run_callback_skb:
  assumes "run_callback cb a d = Inr d'"
  shows "skb d' =
     (if cb = Cb_clear_canintf_complete \<and> (canintf d AND CANINTF_TX0IF) \<noteq> 0 then None
      else skb d)"
proof (cases cb)
  case Cb_read_flags_complete
  with assms show ?thesis by (simp add: read_flags_complete_skb)
next
  case Cb_read_rxb0_complete
  with assms show ?thesis by (simp add: read_rxb0_complete_skb)
next
  case Cb_read_rxb1_complete
  with assms show ?thesis by (simp add: read_rxb1_complete_skb)
next
  case Cb_clear_canintf_complete
  with assms show ?thesis by (auto simp: clear_canintf_complete_skb)
next
  case Cb_clear_eflg_complete
  with assms show ?thesis by (auto simp: clear_eflg_complete_fields)
next
  case Cb_load_txb0_complete
  with assms show ?thesis by (auto simp: mcp2515_load_txb0_complete_def issue_fields)
next
  case Cb_rts_txb0_complete
  with assms show ?thesis by (auto simp: mcp2515_rts_txb0_complete_def issue_fields)
qed

lemma step_I6:
  assumes "step ev d = Inr d'" "I6 d"
  shows "I6 d'"
proof (cases ev)
  case Irq
  with assms show ?thesis
    by (auto simp: mcp2515_interrupt_def I6_def issue_fields split: if_splits)
next
  case (Xmit f dropped)
  with assms show ?thesis
    by (auto simp: mcp2515_start_xmit_def I6_def Let_def netif_stop_queue_def
        dest!: load_txb0_flags split: if_splits)
next
  case (Spi_complete rx a)
  with assms obtain cb where "run_callback cb a (spi_fill_rx rx d) = Inr d'"
    by (auto split: option.splits)
  moreover from assms(2) have "I6 (spi_fill_rx rx d)"
    by (simp add: I6_def spi_fill_rx_fields)
  ultimately show ?thesis by (rule run_callback_I6)
qed

subsection \<open>The message a step submits\<close>

lemma read_flags_submitted:
  "4 \<le> length (tx_buf d) \<Longrightarrow>
   last_submitted (mcp2515_read_flags d) = Some (Some Cb_read_flags_complete, [0x03, 0x2c, 0, 0])"
  by (simp add: issue_defs last_submitted_def MCP2515_INSTRUCTION_READ_def CANINTF_def take4_upd)

lemma read_rxb_submitted:
  "length (tx_buf d) = 14 \<Longrightarrow>
   last_submitted (mcp2515_read_rxb i cb d) = Some (Some cb, i # replicate 13 0)"
  by (simp add: issue_defs last_submitted_def memset_def numeral_eq_Suc)

lemma clear_canintf_submitted:
  "4 \<le> length (tx_buf d) \<Longrightarrow>
   last_submitted (mcp2515_clear_canintf d) =
     Some (Some Cb_clear_canintf_complete,
           [0x05, 0x2c, canintf d AND NOT (CANINTF_RX0IF OR CANINTF_RX1IF), 0])"
  by (simp add: issue_defs last_submitted_def MCP2515_INSTRUCTION_BIT_MODIFY_def CANINTF_def
      take4_upd)

lemma clear_eflg_submitted:
  "4 \<le> length (tx_buf d) \<Longrightarrow>
   last_submitted (mcp2515_clear_eflg d) = Some (Some Cb_clear_eflg_complete, [0x05, 0x2d, eflg d, 0])"
  by (simp add: issue_defs last_submitted_def MCP2515_INSTRUCTION_BIT_MODIFY_def EFLAG_def
      take4_upd)

subsection \<open>Bring-up\<close>

lemma chip_start_mode_values:
  "chip_start_mode cm = CANCTRL_REQOP_LOOPBACK \<or>
   chip_start_mode cm = CANCTRL_REQOP_LISTEN_ONLY \<or>
   chip_start_mode cm = CANCTRL_REQOP_NORMAL"
  by (simp add: chip_start_mode_def Let_def CANCTRL_REQOP_LOOPBACK_def
      CANCTRL_REQOP_LISTEN_ONLY_def CANCTRL_REQOP_NORMAL_def CAN_CTRLMODE_ONE_SHOT_def)

lemma chip_start_mode_no_osm: "(chip_start_mode cm AND CANCTRL_OSM) = 0"
  using chip_start_mode_values [of cm]
  by (auto simp: CANCTRL_REQOP_LOOPBACK_def CANCTRL_REQOP_LISTEN_ONLY_def
      CANCTRL_REQOP_NORMAL_def CANCTRL_OSM_def)

text \<open>
  No callback sets \<open>transmit\<close>, \<open>interrupt\<close> or \<open>busy\<close>; over all steps the first
  two are set only while \<open>busy\<close> is set, and \<open>busy\<close> is cleared only when both
  are clear.
\<close>

lemma run_callback_flag_edges:
  assumes "run_callback cb a d = Inr d'"
  shows "(transmit d' \<longrightarrow> transmit d) \<and> (interrupt d' \<longrightarrow> interrupt d) \<and>
         (busy d \<and> \<not> busy d' \<longrightarrow> \<not> transmit d \<and> \<not> interrupt d) \<and> (busy d' \<longrightarrow> busy d)"
proof (cases cb)
  case Cb_read_flags_complete
  with assms show ?thesis
    by (auto simp: mcp2515_read_flags_complete_def Let_def issue_fields
      mcp2515_read_rxb0_def mcp2515_read_rxb1_def
      dest!: load_txb0_flags split: if_splits)
next
  case Cb_read_rxb0_complete
  with assms show ?thesis
    by (auto simp: mcp2515_read_rxb0_complete_def issue_fields mcp2515_read_rxb1_def
      dest!: read_rxb_complete_flags transmit_or_read_flags_flags
      split: sum.splits if_splits)
next
  case Cb_read_rxb1_complete
  with assms show ?thesis
    by (auto simp: mcp2515_read_rxb1_complete_def
      dest!: read_rxb_complete_flags transmit_or_read_flags_flags
      split: sum.splits)
next
  case Cb_clear_canintf_complete
  with assms show ?thesis by (auto simp: clear_canintf_complete_flags)
next
  case Cb_clear_eflg_complete
  with assms show ?thesis by (auto simp: clear_eflg_complete_fields)
next
  case Cb_load_txb0_complete
  with assms show ?thesis by (auto simp: mcp2515_load_txb0_complete_def issue_fields)
next
  case Cb_rts_txb0_complete
  with assms show ?thesis by (auto simp: mcp2515_rts_txb0_complete_def issue_fields)
qed

lemma step_flag_edges:
  assumes "step ev d = Inr d'"
  shows "(transmit d' \<and> \<not> transmit d \<longrightarrow> busy d \<and> busy d') \<and>
         (interrupt d' \<and> \<not> interrupt d \<longrightarrow> busy d \<and> busy d') \<and>
         (busy d \<and> \<not> busy d' \<longrightarrow> \<not> transmit d \<and> \<not> interrupt d)"
proof (cases ev)
  case Irq
  with assms show ?thesis
    by (auto simp: mcp2515_interrupt_def issue_fields split: if_splits)
next
  case (Xmit f dropped)
  with assms show ?thesis
    by (auto simp: mcp2515_start_xmit_def Let_def netif_stop_queue_def
        dest!: load_txb0_flags split: if_splits)
next
  case (Spi_complete rx a)
  with assms obtain cb where "run_callback cb a (spi_fill_rx rx d) = Inr d'"
    by (auto split: option.splits)
  from run_callback_flag_edges [OF this] show ?thesis
    by (auto simp: spi_fill_rx_fields)
qed

lemma spi_fill_rx_length:
  "transfer_len d \<le> length (rx_buf d) \<Longrightarrow>
   length (rx_buf (spi_fill_rx rx d)) = length (rx_buf d)"
  by (simp add: spi_fill_rx_def)

lemma rts_txb0_complete_submitted:
  "4 \<le> length (tx_buf d) \<Longrightarrow>
   last_submitted (mcp2515_rts_txb0_complete d) =
     Some (Some Cb_read_flags_complete, [0x03, 0x2c, 0, 0])"
  by (simp add: mcp2515_rts_txb0_complete_def read_flags_submitted)

section \<open>Claims\<close>

text \<open>
  C1.  When READ_FLAGS completes, the callback caches CANINTF (byte 2 of the
  receive buffer) and then: with RX0IF it submits READ_RXB0; else with RX1IF
  READ_RXB1; else, if the byte is not zero, the BIT-MODIFY that clears
  CANINTF; only for a zero byte it drains.  In the drain a pending transmit
  is served first (LOAD_TXB0), then a pending interrupt (READ_FLAGS again),
  and only with both flags clear \<open>busy\<close> is cleared and nothing is submitted.
  In every other branch \<open>busy\<close> keeps its value.  The callback can only fail in
  the transmit branch of the drain.
\<close>

theorem read_flags_complete_branches:
  assumes "length (tx_buf dev) = 14"
  shows "case mcp2515_read_flags_complete dev of
           Inl e \<Rightarrow> rx_buf dev ! 2 = 0 \<and> transmit dev
         | Inr dev' \<Rightarrow>
             canintf dev' = rx_buf dev ! 2 \<and>
             (busy dev \<and> \<not> busy dev') =
               (busy dev \<and> rx_buf dev ! 2 = 0 \<and> \<not> transmit dev \<and> \<not> interrupt dev) \<and>
             (if (rx_buf dev ! 2 AND CANINTF_RX0IF) \<noteq> 0 then
                last_submitted dev' = Some (Some Cb_read_rxb0_complete, 0x90 # replicate 13 0) \<and>
                busy dev' = busy dev
              else if (rx_buf dev ! 2 AND CANINTF_RX1IF) \<noteq> 0 then
                last_submitted dev' = Some (Some Cb_read_rxb1_complete, 0x94 # replicate 13 0) \<and>
                busy dev' = busy dev
              else if rx_buf dev ! 2 \<noteq> 0 then
                last_submitted dev' =
                  Some (Some Cb_clear_canintf_complete,
                        [0x05, 0x2c, rx_buf dev ! 2 AND NOT (CANINTF_RX0IF OR CANINTF_RX1IF), 0]) \<and>
                busy dev' = busy dev
              else if transmit dev then
                message_complete dev' = Some Cb_load_txb0_complete \<and>
                spi_async_log dev' \<noteq> spi_async_log dev \<and>
                \<not> transmit dev' \<and> interrupt dev' = interrupt dev \<and> busy dev' = busy dev
              else if interrupt dev then
                last_submitted dev' = Some (Some Cb_read_flags_complete, [0x03, 0x2c, 0, 0]) \<and>
                \<not> interrupt dev' \<and> busy dev' = busy dev
              else \<not> busy dev' \<and> spi_async_log dev' = spi_async_log dev)"
proof -
  let ?c = "rx_buf dev ! 2"
  let ?d1 = "dev\<lparr>canintf := ?c, eflg := rx_buf dev ! 3\<rparr>"
  have len: "length (tx_buf ?d1) = 14" "4 \<le> length (tx_buf ?d1)"
    using assms by simp_all
  consider (rx0) "(?c AND CANINTF_RX0IF) \<noteq> 0"
    | (rx1) "(?c AND CANINTF_RX0IF) = 0" "(?c AND CANINTF_RX1IF) \<noteq> 0"
    | (clr) "(?c AND CANINTF_RX0IF) = 0" "(?c AND CANINTF_RX1IF) = 0" "?c \<noteq> 0"
    | (tx) "?c = 0" "transmit dev"
    | (irq) "?c = 0" "\<not> transmit dev" "interrupt dev"
    | (idle) "?c = 0" "\<not> transmit dev" "\<not> interrupt dev"
    by auto
  then show ?thesis
  proof cases
    case rx0
    then show ?thesis
      using read_rxb_submitted [OF len(1), of "MCP2515_INSTRUCTION_READ_RXB 0" Cb_read_rxb0_complete]
      by (auto simp: mcp2515_read_flags_complete_def Let_def mcp2515_read_rxb0_def read_rxb_fields
          MCP2515_INSTRUCTION_READ_RXB_def)
  next
    case rx1
    then show ?thesis
      using read_rxb_submitted [OF len(1), of "MCP2515_INSTRUCTION_READ_RXB 1" Cb_read_rxb1_complete]
      by (auto simp: mcp2515_read_flags_complete_def Let_def mcp2515_read_rxb1_def read_rxb_fields
          MCP2515_INSTRUCTION_READ_RXB_def)
  next
    case clr
    then show ?thesis
      using clear_canintf_submitted [OF len(2)]
      by (auto simp: mcp2515_read_flags_complete_def Let_def clear_canintf_fields)
  next
    case tx
    then have c0: "(?c AND CANINTF_RX0IF) = 0" "(?c AND CANINTF_RX1IF) = 0" by simp_all
    show ?thesis
    proof (cases "mcp2515_load_txb0 (skb ?d1) (?d1\<lparr>transmit := False\<rparr>)")
      case (Inl e)
      with tx c0 show ?thesis by (simp add: mcp2515_read_flags_complete_def Let_def)
    next
      case (Inr d')
      from load_txb0_fields [OF Inr] Inr tx c0 show ?thesis
        by (simp add: mcp2515_read_flags_complete_def Let_def)
    qed
  next
    case irq
    then show ?thesis
      using read_flags_submitted [of "?d1\<lparr>interrupt := False\<rparr>"] len
      by (auto simp: mcp2515_read_flags_complete_def Let_def read_flags_fields)
  next
    case idle
    then show ?thesis
      by (auto simp: mcp2515_read_flags_complete_def Let_def)
  qed
qed


theorem read_flags_complete_branches_witness:
  "length (tx_buf (probed_dev\<lparr>busy := True\<rparr>)) = 14 \<and>
   (case mcp2515_read_flags_complete (probed_dev\<lparr>busy := True\<rparr>) of
      Inl e \<Rightarrow> False
    | Inr dev' \<Rightarrow> canintf dev' = 0 \<and> \<not> busy dev' \<and> spi_async_log dev' = []) \<and>
   length (tx_buf (probed_dev\<lparr>busy := True, rx_buf := [0, 0, 0x05, 0, 0, 0, 0, 0, 0, 0, 0, 0, 0, 0]\<rparr>)) = 14 \<and>
   (case mcp2515_read_flags_complete (probed_dev\<lparr>busy := True, rx_buf := [0, 0, 0x05, 0, 0, 0, 0, 0, 0, 0, 0, 0, 0, 0]\<rparr>) of
      Inl e \<Rightarrow> False
    | Inr dev' \<Rightarrow>
        canintf dev' = 0x05 \<and> busy dev' \<and>
        last_submitted dev' = Some (Some Cb_read_rxb0_complete, 0x90 # replicate 13 0))"
  using read_flags_complete_branches [of "probed_dev\<lparr>busy := True\<rparr>"]
    read_flags_complete_branches [of "probed_dev\<lparr>busy := True, rx_buf := [0, 0, 0x05, 0, 0, 0, 0, 0, 0, 0, 0, 0, 0, 0]\<rparr>"]
  by code_simp

text \<open>
  C2.  Invariant I6 is kept by every step of the driver, hence by every run:
  from a state where \<open>busy\<close> is set or both \<open>transmit\<close> and \<open>interrupt\<close> are clear,
  any sequence of interrupts, host transmits and SPI completions that runs
  through leads to such a state again.  The probed device is such a state.
\<close>

theorem I6_invariant:
  assumes "I6 dev" and "run evs dev = Inr dev'"
  shows "busy dev' \<or> (\<not> transmit dev' \<and> \<not> interrupt dev')"
proof -
  have "I6 dev'"
    using assms
  proof (induction evs arbitrary: dev)
    case Nil
    then show ?case by simp
  next
    case (Cons ev evs)
    from Cons.prems(2) obtain d1 where s: "step ev dev = Inr d1" and r: "run evs d1 = Inr dev'"
      by (auto split: sum.splits)
    from step_I6 [OF s Cons.prems(1)] r show ?case by (rule Cons.IH)
  qed
  then show ?thesis by (simp add: I6_def)
qed


theorem I6_invariant_witness:
  "I6 probed_dev \<and> is_ok (run tx_scenario probed_dev) \<and>
   \<not> busy (projr (run tx_scenario probed_dev)) \<and>
   \<not> transmit (projr (run tx_scenario probed_dev)) \<and>
   \<not> interrupt (projr (run tx_scenario probed_dev))"
proof -
  have h: "I6 probed_dev" by code_simp
  have r: "run tx_scenario probed_dev = Inr (projr (run tx_scenario probed_dev))" by code_simp
  have ok: "is_ok (run tx_scenario probed_dev)" by code_simp
  have nb: "\<not> busy (projr (run tx_scenario probed_dev))" by code_simp
  from I6_invariant [OF h r] nb
  have "\<not> transmit (projr (run tx_scenario probed_dev)) \<and>
        \<not> interrupt (projr (run tx_scenario probed_dev))" by blast
  with h ok nb show ?thesis by blast
qed

text \<open>
  C3.  For one step of the driver that runs through: the pending frame goes
  from \<open>NULL\<close> to a frame exactly when the step is a host transmit that is
  accepted, and from a frame to \<open>NULL\<close> exactly when the step is the
  completion of CLEAR_CANINTF with TX0IF in the cached CANINTF; any change of
  the slot is one of these two steps.  When the frame is released the
  transmit queue is woken, the packet is counted and the byte count of the
  echoed frame is added to \<open>tx_bytes\<close>.
\<close>

theorem pending_skb_transitions:
  assumes "step ev dev = Inr dev'"
  shows "((skb dev = None \<and> skb dev' \<noteq> None) = (skb dev = None \<and> xmit_accept ev)) \<and>
         ((skb dev \<noteq> None \<and> skb dev' = None) = (skb dev \<noteq> None \<and> tx_done ev dev)) \<and>
         (skb dev' = skb dev \<or> xmit_accept ev \<or> tx_done ev dev) \<and>
         (if skb dev \<noteq> None \<and> tx_done ev dev
          then \<not> queue_stopped dev' \<and> tx_packets dev' = tx_packets dev + 1 \<and>
               tx_bytes dev' = tx_bytes dev + of_nat (fst (can_get_echo_skb dev))
          else True)"
proof (cases ev)
  case Irq
  with assms have "skb dev' = skb dev"
    by (auto simp: mcp2515_interrupt_def read_flags_fields split: if_splits)
  with Irq show ?thesis by (auto simp: xmit_accept_def tx_done_def)
next
  case (Xmit f dropped)
  with assms show ?thesis
    by (auto simp: mcp2515_start_xmit_def xmit_accept_def tx_done_def Let_def netif_stop_queue_def
        dest!: load_txb0_flags split: if_splits)
next
  case (Spi_complete rx a)
  with assms obtain cb where cb: "message_complete dev = Some cb"
    and rc: "run_callback cb a (spi_fill_rx rx dev) = Inr dev'"
    by (auto split: option.splits)
  have sk: "skb dev' =
     (if cb = Cb_clear_canintf_complete \<and> (canintf dev AND CANINTF_TX0IF) \<noteq> 0 then None
      else skb dev)"
    using run_callback_skb [OF rc] by (simp add: spi_fill_rx_fields)
  have td: "tx_done ev dev = (cb = Cb_clear_canintf_complete \<and> (canintf dev AND CANINTF_TX0IF) \<noteq> 0)"
    using Spi_complete cb by (auto simp: tx_done_def)
  have xa: "\<not> xmit_accept ev" using Spi_complete by (simp add: xmit_accept_def)
  have acct: "\<not> queue_stopped dev' \<and> tx_packets dev' = tx_packets dev + 1 \<and>
               tx_bytes dev' = tx_bytes dev + of_nat (fst (can_get_echo_skb dev))"
    if "skb dev \<noteq> None" "tx_done ev dev"
  proof -
    from that td have c: "cb = Cb_clear_canintf_complete" and t: "(canintf dev AND CANINTF_TX0IF) \<noteq> 0"
      by simp_all
    from rc c have d': "dev' = mcp2515_clear_canintf_complete (spi_fill_rx rx dev)" by simp
    have e: "fst (can_get_echo_skb (spi_fill_rx rx dev)) = fst (can_get_echo_skb dev)"
      by (simp add: can_get_echo_skb_def spi_fill_rx_fields split: option.splits)
    from clear_canintf_complete_tx_done [of "spi_fill_rx rx dev"] t that(1) e show ?thesis
      by (simp add: d' spi_fill_rx_fields)
  qed
  show ?thesis using sk td xa acct by auto
qed


theorem pending_skb_transitions_witness:
  "is_ok (step (Xmit std_frame False) probed_dev) \<and>
   skb probed_dev = None \<and> xmit_accept (Xmit std_frame False) \<and>
   skb (projr (step (Xmit std_frame False) probed_dev)) = Some std_frame \<and>
   is_ok (step (Spi_complete [] None) tx_pending_dev) \<and>
   skb tx_pending_dev = Some std_frame \<and> tx_done (Spi_complete [] None) tx_pending_dev \<and>
   skb (projr (step (Spi_complete [] None) tx_pending_dev)) = None \<and>
   \<not> queue_stopped (projr (step (Spi_complete [] None) tx_pending_dev)) \<and>
   tx_packets (projr (step (Spi_complete [] None) tx_pending_dev)) = 1 \<and>
   tx_bytes (projr (step (Spi_complete [] None) tx_pending_dev)) = 3"
proof -
  have r1: "step (Xmit std_frame False) probed_dev =
            Inr (projr (step (Xmit std_frame False) probed_dev))" by code_simp
  have r2: "step (Spi_complete [] None) tx_pending_dev =
            Inr (projr (step (Spi_complete [] None) tx_pending_dev))" by code_simp
  show ?thesis
    using pending_skb_transitions [OF r1] pending_skb_transitions [OF r2] by code_simp
qed

text \<open>
  C4, counterexample.  A frame with the RTR flag and \<open>can_dlc = 3\<close>: the payload
  \<open>mcp2515_set_txbuf\<close> writes does not end after the DLC byte; the three data
  bytes follow it and the returned length is 8.
\<close>

theorem rtr_encode_counterexample:
  "(can_id rtr_frame AND CAN_RTR_FLAG) \<noteq> 0 \<and>
   mcp2515_set_txbuf (replicate 13 0) rtr_frame =
     Inr ([0x24, 0x60, 0, 0, 0x43, 0x01, 0x02, 0x03, 0, 0, 0, 0, 0], 8)"
  by code_simp

text \<open>
  C4, as amended.  Decoding a READ-RXB buffer that marks a remote request
  leaves the data of the frame as it was allocated.  Encoding does not
  look at the RTR flag when it copies: for a frame with the RTR flag and
  \<open>can_dlc\<close> at most 8, the DLC byte carries bit 6, \<open>can_dlc\<close> data bytes follow
  it and the returned length is \<open>5 + can_dlc\<close>.
\<close>

theorem rtr_data_bytes:
  assumes "rxb_rtr rxb"
    and "(can_id f AND CAN_RTR_FLAG) \<noteq> 0"
    and "unat (can_dlc f) \<le> 8" and "length (data f) = 8" and "length buf = 13"
  shows "(\<exists>f'. mcp2515_rx_frame rxb frame = Inr f' \<and> data f' = data frame \<and>
               (can_id f' AND CAN_RTR_FLAG) \<noteq> 0) \<and>
         (\<exists>p. mcp2515_set_txbuf buf f = Inr (p, 5 + unat (can_dlc f)) \<and>
              p ! 4 = can_dlc f OR 0x40 \<and>
              take (unat (can_dlc f)) (drop 5 p) = take (unat (can_dlc f)) (data f))"
proof
  show "\<exists>f'. mcp2515_rx_frame rxb frame = Inr f' \<and> data f' = data frame \<and>
             (can_id f' AND CAN_RTR_FLAG) \<noteq> 0"
    using assms(1) by (rule rx_frame_rtr)
next
  show "\<exists>p. mcp2515_set_txbuf buf f = Inr (p, 5 + unat (can_dlc f)) \<and>
            p ! 4 = can_dlc f OR 0x40 \<and>
            take (unat (can_dlc f)) (drop 5 p) = take (unat (can_dlc f)) (data f)"
    using assms(2-)
    by (simp add: set_txbuf_ok nth_append header_length header_dlc)
qed

theorem rtr_data_bytes_witness:
  "rxb_rtr rxb_std_rtr \<and> (can_id rtr_frame AND CAN_RTR_FLAG) \<noteq> 0 \<and>
   unat (can_dlc rtr_frame) \<le> 8 \<and> length (data rtr_frame) = 8 \<and>
   length (replicate 13 (0::u8)) = 13 \<and>
   mcp2515_rx_frame rxb_std_rtr zeroed_can_frame =
     Inr \<lparr>can_id = 0x123 OR CAN_RTR_FLAG, can_dlc = 3, data = replicate 8 0\<rparr> \<and>
   mcp2515_set_txbuf (replicate 13 0) rtr_frame =
     Inr ([0x24, 0x60, 0, 0, 0x43, 0x01, 0x02, 0x03, 0, 0, 0, 0, 0], 8)"
proof -
  have h: "rxb_rtr rxb_std_rtr" "(can_id rtr_frame AND CAN_RTR_FLAG) \<noteq> 0"
    "unat (can_dlc rtr_frame) \<le> 8" "length (data rtr_frame) = 8"
    "length (replicate 13 (0::u8)) = 13"
    by code_simp+
  have c: "mcp2515_rx_frame rxb_std_rtr zeroed_can_frame =
             Inr \<lparr>can_id = 0x123 OR CAN_RTR_FLAG, can_dlc = 3, data = replicate 8 0\<rparr>"
    "mcp2515_set_txbuf (replicate 13 0) rtr_frame =
       Inr ([0x24, 0x60, 0, 0, 0x43, 0x01, 0x02, 0x03, 0, 0, 0, 0, 0], 8)"
    by code_simp+
  from rtr_data_bytes [OF h, of zeroed_can_frame] h c show ?thesis by blast
qed


text \<open>
  C5.  The claim does not hold of the code.  A device asks for one-shot mode
  (and neither loop-back nor listen-only) and every SPI call of the bring-up
  succeeds.  The byte written to CANCTRL, in the fourth SPI write, is 0x00:
  the OSM bit (0x08) is not set, because the test is made on the register
  value \<open>mode\<close> and not on the control-mode bits.
\<close>

theorem chip_start_one_shot_not_written:
  "(ctrlmode one_shot_dev AND CAN_CTRLMODE_ONE_SHOT) \<noteq> 0 \<and>
   chip_start_mode (ctrlmode one_shot_dev) = 0x00 \<and>
   mcp2515_chip_start 0 0 0 [(0, 0x00, False)] one_shot_dev =
     (Some 0,
      one_shot_dev
        \<lparr>state := CAN_STATE_ERROR_ACTIVE,
         tx_buf := [0x02, 0x60, 0x64, 0x60, 0x03, 0x3f, 0, 0, 0, 0, 0, 0, 0, 0],
         spi_sync_log :=
           [[0xc0],
            [0x02, 0x28, 0x01, 0x91, 0x03, 0x3f],
            [0x02, 0x60, 0x64, 0x60],
            [0x02, 0x0f, 0x00],
            [0x03, 0x0e]]\<rparr>)"
  by code_simp

text \<open>
  C6, counterexample.  On transmit a frame with \<open>can_dlc = 9\<close>: the DLC byte
  written is 9, its low four bits are not the length clamped to 8, and the
  copy that follows leaves the buffer.  On receive a standard frame whose DLC
  byte has bit 6 set while SRR is clear: the frame delivered carries no RTR
  flag.
\<close>

theorem dlc_byte_counterexample:
  "(set_txbuf_header (replicate 13 0) (std_frame\<lparr>can_dlc := 9\<rparr>) ! 4) AND 0xf = 9 \<and>
   get_can_dlc 9 = 8 \<and>
   mcp2515_set_txbuf (replicate 13 0) (std_frame\<lparr>can_dlc := 9\<rparr>) = Inl Buffer_Overrun \<and>
   bit (rxb_std_dlc_bit6 ! 5) 6 \<and>
   mcp2515_rx_frame rxb_std_dlc_bit6 zeroed_can_frame =
     Inr \<lparr>can_id = 0x123, can_dlc = 1, data = [0xAA, 0, 0, 0, 0, 0, 0, 0]\<rparr> \<and>
   (0x123 AND CAN_RTR_FLAG) = 0"
  by code_simp

text \<open>
  C6, as amended.  On transmit, for every frame with \<open>can_dlc\<close> at most 8 (the
  frames the transmit entry lets through) the low four bits of the DLC byte
  are \<open>can_dlc\<close> and bit 6 is the RTR flag; nothing is clamped.  On receive the
  length of the frame is the low four bits of the DLC byte clamped to 8, and
  the RTR flag of the frame is bit 6 of the DLC byte for an extended frame
  and the SRR bit (bit 4) of SIDL for a standard frame.
\<close>

theorem dlc_byte_mapping:
  assumes "unat (can_dlc f) \<le> 8" and "length (data f) = 8" and "length buf = 13"
    and "length rxb = 14" and "length (data frame) = 8"
  shows "(\<exists>p. mcp2515_set_txbuf buf f = Inr (p, 5 + unat (can_dlc f)) \<and>
              (p ! 4) AND 0xf = can_dlc f \<and>
              bit (p ! 4) 6 = ((can_id f AND CAN_RTR_FLAG) \<noteq> 0)) \<and>
         (\<exists>f'. mcp2515_rx_frame rxb frame = Inr f' \<and>
               unat (can_dlc f') = min (unat ((rxb ! 5) AND 0xf)) 8 \<and>
               ((can_id f' AND CAN_RTR_FLAG) \<noteq> 0) =
                 (if ((rxb ! 2) AND RXBSIDL_IDE) \<noteq> 0 then bit (rxb ! 5) 6
                  else bit (rxb ! 2) 4))"
proof
  show "\<exists>p. mcp2515_set_txbuf buf f = Inr (p, 5 + unat (can_dlc f)) \<and>
            (p ! 4) AND 0xf = can_dlc f \<and>
            bit (p ! 4) 6 = ((can_id f AND CAN_RTR_FLAG) \<noteq> 0)"
    using assms(1-3)
    by (simp add: set_txbuf_ok nth_append header_length header_dlc dlc_low_bits)
next
  from rx_frame_ok [OF assms(4,5)]
  show "\<exists>f'. mcp2515_rx_frame rxb frame = Inr f' \<and>
             unat (can_dlc f') = min (unat ((rxb ! 5) AND 0xf)) 8 \<and>
             ((can_id f' AND CAN_RTR_FLAG) \<noteq> 0) =
               (if ((rxb ! 2) AND RXBSIDL_IDE) \<noteq> 0 then bit (rxb ! 5) 6
                else bit (rxb ! 2) 4)"
    unfolding rxb_rtr_bits by blast
qed

theorem dlc_byte_mapping_witness:
  "unat (can_dlc rtr_frame) \<le> 8 \<and> length (data rtr_frame) = 8 \<and>
   length (replicate 13 (0::u8)) = 13 \<and> length rxb_std_dlc_bit6 = 14 \<and>
   length (data zeroed_can_frame) = 8 \<and>
   mcp2515_set_txbuf (replicate 13 0) rtr_frame =
     Inr ([0x24, 0x60, 0, 0, 0x43, 0x01, 0x02, 0x03, 0, 0, 0, 0, 0], 8) \<and>
   (0x43 :: u8) AND 0xf = can_dlc rtr_frame \<and> bit (0x43 :: u8) 6 \<and>
   mcp2515_rx_frame rxb_std_dlc_bit6 zeroed_can_frame =
     Inr \<lparr>can_id = 0x123, can_dlc = 1, data = [0xAA, 0, 0, 0, 0, 0, 0, 0]\<rparr>"
proof -
  have h: "unat (can_dlc rtr_frame) \<le> 8" "length (data rtr_frame) = 8"
    "length (replicate 13 (0::u8)) = 13" "length rxb_std_dlc_bit6 = 14"
    "length (data zeroed_can_frame) = 8"
    by code_simp+
  have c: "mcp2515_set_txbuf (replicate 13 0) rtr_frame =
       Inr ([0x24, 0x60, 0, 0, 0x43, 0x01, 0x02, 0x03, 0, 0, 0, 0, 0], 8)"
    "(0x43 :: u8) AND 0xf = can_dlc rtr_frame" "bit (0x43 :: u8) 6"
    "mcp2515_rx_frame rxb_std_dlc_bit6 zeroed_can_frame =
       Inr \<lparr>can_id = 0x123, can_dlc = 1, data = [0xAA, 0, 0, 0, 0, 0, 0, 0]\<rparr>"
    by code_simp+
  from dlc_byte_mapping [OF h] h c show ?thesis by blast
qed


text \<open>
  C7.  Round trip of the two frames of the specification.  The frame is
  encoded by \<open>mcp2515_set_txbuf\<close> into any 13-byte region; a receive buffer
  whose bytes 1 to 13 are that region (byte 0 is arbitrary) is then decoded
  by \<open>mcp2515_read_rxb_complete\<close> into a cleared frame: the frame delivered to
  the host is the frame that was encoded.
\<close>

theorem encode_decode_roundtrip:
  assumes "length buf = 13"
  shows "(\<exists>p. mcp2515_set_txbuf buf std_frame = Inr (p, 8) \<and>
              mcp2515_rx_frame (b0 # p) zeroed_can_frame = Inr std_frame \<and>
              (\<exists>dev'. mcp2515_read_rxb_complete (Some zeroed_can_frame) (dev\<lparr>rx_buf := b0 # p\<rparr>)
                         = Inr dev' \<and>
                      netif_rx dev' = netif_rx dev @ [std_frame])) \<and>
         (\<exists>p. mcp2515_set_txbuf buf ext_frame = Inr (p, 7) \<and>
              mcp2515_rx_frame (b0 # p) zeroed_can_frame = Inr ext_frame \<and>
              (\<exists>dev'. mcp2515_read_rxb_complete (Some zeroed_can_frame) (dev\<lparr>rx_buf := b0 # p\<rparr>)
                         = Inr dev' \<and>
                      netif_rx dev' = netif_rx dev @ [ext_frame]))"
proof -
  have deliver: "\<exists>dev'. mcp2515_read_rxb_complete (Some zeroed_can_frame) (dev\<lparr>rx_buf := b0 # p\<rparr>)
                         = Inr dev' \<and> netif_rx dev' = netif_rx dev @ [fr]"
    if "mcp2515_rx_frame (b0 # p) zeroed_can_frame = Inr fr" for p fr
    using that by (simp add: mcp2515_read_rxb_complete_def)
  from std_roundtrip [OF assms, of b0] ext_roundtrip [OF assms, of b0] deliver
  show ?thesis by blast
qed

theorem encode_decode_roundtrip_witness:
  "length (replicate 13 (0::u8)) = 13 \<and>
   mcp2515_set_txbuf (replicate 13 0) std_frame =
     Inr ([0x24, 0x60, 0, 0, 0x03, 0xAA, 0xBB, 0xCC, 0, 0, 0, 0, 0], 8) \<and>
   mcp2515_rx_frame [0, 0x24, 0x60, 0, 0, 0x03, 0xAA, 0xBB, 0xCC, 0, 0, 0, 0, 0] zeroed_can_frame =
     Inr std_frame \<and>
   mcp2515_set_txbuf (replicate 13 0) ext_frame =
     Inr ([0xD5, 0xE8, 0xDE, 0xF0, 0x02, 0x11, 0x22, 0, 0, 0, 0, 0, 0], 7) \<and>
   mcp2515_rx_frame [0, 0xD5, 0xE8, 0xDE, 0xF0, 0x02, 0x11, 0x22, 0, 0, 0, 0, 0, 0] zeroed_can_frame =
     Inr ext_frame"
proof -
  have h: "length (replicate 13 (0::u8)) = 13" by simp
  have c: "mcp2515_set_txbuf (replicate 13 0) std_frame =
       Inr ([0x24, 0x60, 0, 0, 0x03, 0xAA, 0xBB, 0xCC, 0, 0, 0, 0, 0], 8)"
    "mcp2515_rx_frame [0, 0x24, 0x60, 0, 0, 0x03, 0xAA, 0xBB, 0xCC, 0, 0, 0, 0, 0] zeroed_can_frame =
       Inr std_frame"
    "mcp2515_set_txbuf (replicate 13 0) ext_frame =
       Inr ([0xD5, 0xE8, 0xDE, 0xF0, 0x02, 0x11, 0x22, 0, 0, 0, 0, 0, 0], 7)"
    "mcp2515_rx_frame [0, 0xD5, 0xE8, 0xDE, 0xF0, 0x02, 0x11, 0x22, 0, 0, 0, 0, 0, 0] zeroed_can_frame =
       Inr ext_frame"
    by code_simp+
  from encode_decode_roundtrip [OF h, where ?b0.0 = 0 and dev = probed_dev] h c show ?thesis by blast
qed

text \<open>
  C8.  Detection at probe time.  With the signature
  \<open>(CANSTAT AND 0xEE) = 0x80\<close>, \<open>(CANCTRL AND 0x17) = 0x07\<close> and both reads
  successful, the result is what \<open>register_candev\<close> returns and the device is
  registered when that is 0.  In every other case the result is \<open>-ENODEV\<close> and
  the registration state of the device is not touched.  So the function
  returns 0 exactly when the signature matches, the reads succeed and the
  framework accepts the device.
\<close>

theorem register_candev_detect:
  "(if (reg_stat AND 0xee) = 0x80 \<and> (reg_ctrl AND 0x17) = 0x07 \<and> err_stat = 0 \<and> err_ctrl = 0
    then fst (mcp2515_register_candev err_stat reg_stat err_ctrl reg_ctrl err_register dev) =
           err_register \<and>
         registered (snd (mcp2515_register_candev err_stat reg_stat err_ctrl reg_ctrl err_register dev)) =
           (registered dev \<or> err_register = 0)
    else fst (mcp2515_register_candev err_stat reg_stat err_ctrl reg_ctrl err_register dev) =
           - ENODEV \<and>
         registered (snd (mcp2515_register_candev err_stat reg_stat err_ctrl reg_ctrl err_register dev)) =
           registered dev) \<and>
   (fst (mcp2515_register_candev err_stat reg_stat err_ctrl reg_ctrl err_register dev) = 0) =
     ((reg_stat AND 0xee) = 0x80 \<and> (reg_ctrl AND 0x17) = 0x07 \<and> err_stat = 0 \<and> err_ctrl = 0 \<and>
      err_register = 0)"
  by (auto simp: mcp2515_register_candev_def Let_def mcp2515_hw_reset_def mcp2515_read_reg_def
      spi_write_def ENODEV_def or_eq_0_iff)

theorem register_candev_detect_witness:
  "mcp2515_register_candev 0 0x80 0 0x07 0 probed_dev =
     (0, probed_dev\<lparr>registered := True,
                    spi_sync_log := [[0xc0], [0x03, 0x0e], [0x03, 0x0f]]\<rparr>) \<and>
   mcp2515_register_candev 0 0xff 0 0xff 0 probed_dev =
     (- ENODEV, probed_dev\<lparr>spi_sync_log := [[0xc0], [0x03, 0x0e], [0x03, 0x0f]]\<rparr>) \<and>
   mcp2515_register_candev 0 0x80 (- 5) 0x07 0 probed_dev =
     (- ENODEV, probed_dev\<lparr>spi_sync_log := [[0xc0], [0x03, 0x0e], [0x03, 0x0f]]\<rparr>)"
  using register_candev_detect [where reg_stat = "0x80" and reg_ctrl = "0x07" and err_stat = 0 and
        err_ctrl = 0 and err_register = 0 and dev = probed_dev]
    register_candev_detect [where reg_stat = "0xff" and reg_ctrl = "0xff" and err_stat = 0 and
        err_ctrl = 0 and err_register = 0 and dev = probed_dev]
    register_candev_detect [where reg_stat = "0x80" and reg_ctrl = "0x07" and err_stat = 0 and
        err_ctrl = "- 5" and err_register = 0 and dev = probed_dev]
  by code_simp


text \<open>
  C9.  Whatever the cached \<open>canintf\<close> and \<open>eflg\<close> are, CLEAR_CANINTF submits the
  four bytes BIT-MODIFY, CANINTF, mask, 0 with the mask \<open>canintf\<close> without
  RX0IF and RX1IF, and CLEAR_EFLG submits BIT-MODIFY, EFLG, \<open>eflg\<close>, 0.
\<close>

theorem clear_steps_bit_modify:
  assumes "length (tx_buf dev) = 14"
  shows "last_submitted (mcp2515_clear_canintf dev) =
           Some (Some Cb_clear_canintf_complete,
                 [MCP2515_INSTRUCTION_BIT_MODIFY, CANINTF,
                  canintf dev AND NOT (CANINTF_RX0IF OR CANINTF_RX1IF), 0]) \<and>
         transfer_len (mcp2515_clear_canintf dev) = 4 \<and>
         last_submitted (mcp2515_clear_eflg dev) =
           Some (Some Cb_clear_eflg_complete,
                 [MCP2515_INSTRUCTION_BIT_MODIFY, EFLAG, eflg dev, 0]) \<and>
         transfer_len (mcp2515_clear_eflg dev) = 4"
  using assms
  by (simp add: clear_canintf_submitted clear_eflg_submitted clear_canintf_fields
      clear_eflg_fields MCP2515_INSTRUCTION_BIT_MODIFY_def CANINTF_def EFLAG_def)

theorem clear_steps_bit_modify_witness:
  "length (tx_buf (probed_dev\<lparr>canintf := 0x27, eflg := 0x40\<rparr>)) = 14 \<and>
   last_submitted (mcp2515_clear_canintf (probed_dev\<lparr>canintf := 0x27, eflg := 0x40\<rparr>)) =
     Some (Some Cb_clear_canintf_complete, [0x05, 0x2c, 0x24, 0]) \<and>
   last_submitted (mcp2515_clear_eflg (probed_dev\<lparr>canintf := 0x27, eflg := 0x40\<rparr>)) =
     Some (Some Cb_clear_eflg_complete, [0x05, 0x2d, 0x40, 0])"
  using clear_steps_bit_modify [of "probed_dev\<lparr>canintf := 0x27, eflg := 0x40\<rparr>"]
  by code_simp

text \<open>
  C10.  With the 14-byte transmit buffer and a frame of at most 8 data bytes,
  every step that starts an asynchronous transfer sets \<open>transfer.len\<close> to at
  most 14 and leaves the buffer 14 bytes long: READ_FLAGS and the two
  BIT-MODIFY steps use 4 bytes, READ-RXB uses 14, RTS uses 1, and LOAD_TXB0
  uses \<open>1 + 5 + can_dlc\<close> and completes without leaving the buffer.  (The
  completion fills \<open>transfer.len\<close> bytes of the receive buffer at most, see
  \<open>spi_fill_rx_length\<close>.)
\<close>

theorem async_transfer_len_bound:
  assumes "unat (can_dlc f) \<le> 8" and "length (data f) = 8" and "length (tx_buf dev) = 14"
  shows "transfer_len (mcp2515_read_flags dev) = 4 \<and>
         length (tx_buf (mcp2515_read_flags dev)) = 14 \<and>
         transfer_len (mcp2515_read_rxb0 dev) = 14 \<and>
         length (tx_buf (mcp2515_read_rxb0 dev)) = 14 \<and>
         transfer_len (mcp2515_read_rxb1 dev) = 14 \<and>
         length (tx_buf (mcp2515_read_rxb1 dev)) = 14 \<and>
         transfer_len (mcp2515_clear_canintf dev) = 4 \<and>
         length (tx_buf (mcp2515_clear_canintf dev)) = 14 \<and>
         transfer_len (mcp2515_clear_eflg dev) = 4 \<and>
         length (tx_buf (mcp2515_clear_eflg dev)) = 14 \<and>
         transfer_len (mcp2515_rts_txb0 dev) = 1 \<and>
         length (tx_buf (mcp2515_rts_txb0 dev)) = 14 \<and>
         (\<exists>dev'. mcp2515_load_txb0 (Some f) dev = Inr dev' \<and>
                 transfer_len dev' = 1 + 5 + unat (can_dlc f) \<and>
                 transfer_len dev' \<le> 14 \<and>
                 length (tx_buf dev') = 14)"
proof -
  from load_txb0_ok [OF assms] obtain dev' where
    l: "mcp2515_load_txb0 (Some f) dev = Inr dev'"
       "transfer_len dev' = 1 + 5 + unat (can_dlc f)" "length (tx_buf dev') = 14"
    by blast
  from l(2) assms(1) have "transfer_len dev' \<le> 14" by simp
  with l assms(3) show ?thesis
    by (simp add: issue_fields mcp2515_read_rxb0_def mcp2515_read_rxb1_def)
qed

theorem async_transfer_len_bound_witness:
  "unat (can_dlc (std_frame\<lparr>can_dlc := 8\<rparr>)) \<le> 8 \<and>
   length (data (std_frame\<lparr>can_dlc := 8\<rparr>)) = 8 \<and>
   length (tx_buf probed_dev) = 14 \<and>
   transfer_len (mcp2515_read_flags probed_dev) = 4 \<and>
   transfer_len (mcp2515_read_rxb0 probed_dev) = 14 \<and>
   transfer_len (mcp2515_rts_txb0 probed_dev) = 1 \<and>
   is_ok (mcp2515_load_txb0 (Some (std_frame\<lparr>can_dlc := 8\<rparr>)) probed_dev) \<and>
   transfer_len (projr (mcp2515_load_txb0 (Some (std_frame\<lparr>can_dlc := 8\<rparr>)) probed_dev)) = 14 \<and>
   tx_buf (projr (mcp2515_load_txb0 (Some (std_frame\<lparr>can_dlc := 8\<rparr>)) probed_dev)) =
     [0x40, 0x24, 0x60, 0, 0, 0x08, 0xAA, 0xBB, 0xCC, 0, 0, 0, 0, 0]"
proof -
  have h: "unat (can_dlc (std_frame\<lparr>can_dlc := 8\<rparr>)) \<le> 8"
    "length (data (std_frame\<lparr>can_dlc := 8\<rparr>)) = 8"
    "length (tx_buf probed_dev) = 14"
    by code_simp+
  have c: "transfer_len (mcp2515_read_flags probed_dev) = 4"
    "transfer_len (mcp2515_read_rxb0 probed_dev) = 14"
    "transfer_len (mcp2515_rts_txb0 probed_dev) = 1"
    "is_ok (mcp2515_load_txb0 (Some (std_frame\<lparr>can_dlc := 8\<rparr>)) probed_dev)"
    "transfer_len (projr (mcp2515_load_txb0 (Some (std_frame\<lparr>can_dlc := 8\<rparr>)) probed_dev)) = 14"
    "tx_buf (projr (mcp2515_load_txb0 (Some (std_frame\<lparr>can_dlc := 8\<rparr>)) probed_dev)) =
       [0x40, 0x24, 0x60, 0, 0, 0x08, 0xAA, 0xBB, 0xCC, 0, 0, 0, 0, 0]"
    by code_simp+
  from async_transfer_len_bound [OF h] h c show ?thesis by blast
qed

end
